theory Spec2Isabelle
  imports Main "HOL-Library.Word"
begin

section \<open>The per-PLC connection engine of libplctag (src/util/plc.c)\<close>

text \<open>
  A shallow embedding of \<^verbatim>\<open>src/util/plc.c\<close>. The PLC object is a record, the state
  function pointer is a datatype of state names, every state function is a HOL function
  from the PLC and the outside world to a status, the updated PLC and the updated world.

  Everything the engine calls but does not define (the socket, the clock, the protocol
  layers, the request callbacks) works on one value of an arbitrary type \<open>'w\<close>, the world,
  which each call takes and returns. The behaviour of these collaborators is a parameter
  of every definition, so that a theorem holds for all of them unless it says otherwise.

  C \<^verbatim>\<open>int\<close> and \<^verbatim>\<open>int64_t\<close> values are HOL integers. The engine compares and copies
  them, and computes with them in two places, both in the error macros: it doubles
  \<^verbatim>\<open>retry_interval_ms\<close> (an \<^verbatim>\<open>int\<close>) and adds it to a clock reading (an \<^verbatim>\<open>int64_t\<close>).
  There the result is wrapped to the width of the C type, see \<open>wrap_int\<close> below.
\<close>

subsection \<open>Status codes\<close>

text \<open>
  The numeric values are declared in \<^verbatim>\<open>lib/libplctag.h\<close>; the engine only compares
  status codes for equality, so they are a datatype. \<open>PLCTAG_ERR_OTHER n\<close> stands for the
  error kinds the engine never names.
\<close>

datatype status =
    PLCTAG_STATUS_OK
  | PLCTAG_STATUS_PENDING
  | PLCTAG_STATUS_RETRY
  | PLCTAG_ERR_PARTIAL
  | PLCTAG_ERR_TOO_SMALL
  | PLCTAG_ERR_BUSY
  | PLCTAG_ERR_NOT_FOUND
  | PLCTAG_ERR_NO_MEM
  | PLCTAG_ERR_BAD_GATEWAY
  | PLCTAG_ERR_OUT_OF_BOUNDS
  | PLCTAG_ERR_NULL_PTR
  | PLCTAG_ERR_OTHER int

subsection \<open>Constants\<close>

definition DESTROY_DISCONNECT_TIMEOUT_MS :: int where
  "DESTROY_DISCONNECT_TIMEOUT_MS = 500"

definition DEFAULT_IDLE_TIMEOUT_MS :: int where
  "DEFAULT_IDLE_TIMEOUT_MS = 5000"

definition PLC_HEARTBEAT_INTERVAL_MS :: int where
  "PLC_HEARTBEAT_INTERVAL_MS = 200"

definition MAX_RETRY_INTERVAL_MS :: int where
  "MAX_RETRY_INTERVAL_MS = 16000"

definition MIN_RETRY_INTERVAL_MS :: int where
  "MIN_RETRY_INTERVAL_MS = 1000"

text \<open>
  The value that a 32-bit \<^verbatim>\<open>int\<close> and a 64-bit \<^verbatim>\<open>int64_t\<close> hold after an arithmetic
  operation with the exact result \<open>n\<close>: the two's complement wrap-around of the compiled
  code (the C standard leaves signed overflow undefined). A result within the range of
  the type is unchanged.
\<close>

definition wrap_int :: "int \<Rightarrow> int" where
  "wrap_int n = (n + 2147483648) mod 4294967296 - 2147483648"

definition wrap_int64 :: "int \<Rightarrow> int" where
  "wrap_int64 n = (n + 9223372036854775808) mod 18446744073709551616 - 9223372036854775808"

subsection \<open>Data\<close>

type_synonym byte = "8 word"

text \<open>
  The in/out arguments of a callback: the buffer (\<open>None\<close> is the NULL pointer) and the two
  offsets \<^verbatim>\<open>*data_start\<close>, \<^verbatim>\<open>*data_end\<close>. A callback returns the span as it leaves it.
\<close>

record span =
  sp_buf :: "byte list option"
  sp_start :: int
  sp_end :: int

text \<open>
  \<^verbatim>\<open>struct plc_request_s\<close>. The \<^verbatim>\<open>next\<close> pointer is the position in the queue, a list;
  \<open>req_addr\<close> is the address of the request object, which is how the queue functions
  compare requests. A callback takes the context, the world, the capacity, the span and
  the request id (by value).
\<close>

record ('w, 'c) plc_request =
  req_addr :: nat
  req_context :: 'c
  req_id :: int
  build_request :: "'c \<Rightarrow> 'w \<Rightarrow> int \<Rightarrow> span \<Rightarrow> int \<Rightarrow> status \<times> 'w \<times> span"
  process_response :: "'c \<Rightarrow> 'w \<Rightarrow> int \<Rightarrow> span \<Rightarrow> int \<Rightarrow> status \<times> 'w \<times> span"

text \<open>
  The top protocol layer, as the engine calls it: \<^verbatim>\<open>plc->top_layer->f(plc->top_layer, ...)\<close>.
  The layer object and the layers below it are part of the world. The last argument and
  the last result of the three request-phase functions is \<^verbatim>\<open>*req_id\<close>.
\<close>

record 'w plc_layer =
  layer_initialize :: "'w \<Rightarrow> status \<times> 'w"
  layer_connect :: "'w \<Rightarrow> int \<Rightarrow> span \<Rightarrow> status \<times> 'w \<times> span"
  layer_disconnect :: "'w \<Rightarrow> int \<Rightarrow> span \<Rightarrow> status \<times> 'w \<times> span"
  layer_reserve_space :: "'w \<Rightarrow> int \<Rightarrow> span \<Rightarrow> int \<Rightarrow> status \<times> 'w \<times> span \<times> int"
  layer_build_layer :: "'w \<Rightarrow> int \<Rightarrow> span \<Rightarrow> int \<Rightarrow> status \<times> 'w \<times> span \<times> int"
  layer_process_response :: "'w \<Rightarrow> int \<Rightarrow> span \<Rightarrow> int \<Rightarrow> status \<times> 'w \<times> span \<times> int"

text \<open>The names of the state functions, the values of \<^verbatim>\<open>plc->state_func\<close>.\<close>

datatype state =
    S_dispatch_requests
  | S_reserve_space_for_tag_request
  | S_build_tag_request
  | S_tag_request_sent
  | S_tag_response_ready
  | S_start_connect
  | S_build_layer_connect_request
  | S_layer_connect_request_sent
  | S_layer_connect_response_ready
  | S_start_disconnect
  | S_build_layer_disconnect_request
  | S_layer_disconnect_request_sent
  | S_layer_disconnect_response_ready
  | S_terminate

text \<open>
  \<^verbatim>\<open>struct plc_s\<close>. The list link, the mutex, the dialect context and the heartbeat timer
  handle are left out: no modelled function reads them. \<open>ref_count\<close> is the count that
  the reference-counting wrapper (\<^verbatim>\<open>rc_alloc\<close>, \<^verbatim>\<open>rc_inc\<close>, \<^verbatim>\<open>rc_dec\<close>) keeps beside the
  object. \<open>socket\<close> is \<open>None\<close> for the NULL handle.
\<close>

record ('w, 'c) plc =
  key :: string
  ref_count :: nat
  is_terminating :: bool
  host :: string
  port :: int
  socket :: "nat option"
  request_list :: "('w, 'c) plc_request list"
  current_request_id :: int
  top_layer :: "'w plc_layer"
  state_func :: state
  data :: "byte list option"
  data_capacity :: int
  payload_end :: int
  payload_start :: int
  retry_interval_ms :: int
  next_retry_time :: int
  idle_timeout_ms :: int
  next_idle_timeout :: int
  is_connected :: bool

text \<open>
  The collaborators of \<^verbatim>\<open>util/socket.h\<close>, \<^verbatim>\<open>util/time.h\<close> and \<^verbatim>\<open>util/event_loop.h\<close>.
  \<^verbatim>\<open>socket_callback_when_write_done\<close> is given the buffer and the value of
  \<^verbatim>\<open>plc->payload_end\<close>; \<^verbatim>\<open>socket_callback_when_read_done\<close> the buffer and its capacity.
  Both keep the address of \<^verbatim>\<open>plc->payload_end\<close> and the socket writes the transferred
  length there when the transfer completes, between two runs of the state machine.
\<close>

record 'w sys =
  time_ms :: "'w \<Rightarrow> int \<times> 'w"
  event_loop_time :: "'w \<Rightarrow> int \<times> 'w"
  socket_create :: "'w \<Rightarrow> status \<times> nat option \<times> 'w"
  socket_close :: "nat \<Rightarrow> 'w \<Rightarrow> 'w"
  socket_status :: "nat option \<Rightarrow> 'w \<Rightarrow> status \<times> 'w"
  socket_callback_when_connection_ready :: "nat option \<Rightarrow> string \<Rightarrow> int \<Rightarrow> 'w \<Rightarrow> status \<times> 'w"
  socket_callback_when_write_done :: "nat option \<Rightarrow> byte list option \<Rightarrow> int \<Rightarrow> 'w \<Rightarrow> status \<times> 'w"
  socket_callback_when_read_done :: "nat option \<Rightarrow> byte list option \<Rightarrow> int \<Rightarrow> 'w \<Rightarrow> status \<times> 'w"

subsection \<open>The error macros\<close>

text \<open>
  \<^verbatim>\<open>reset_plc\<close>: close the socket if there is one, reinitialize the layers (the status of
  \<^verbatim>\<open>initialize\<close> is dropped), clear \<^verbatim>\<open>is_connected\<close>.
\<close>

definition reset_plc :: "'w sys \<Rightarrow> ('w, 'c) plc \<Rightarrow> 'w \<Rightarrow> ('w, 'c) plc \<times> 'w" where
  "reset_plc sys plc w =
     (let w1 = (case socket plc of None \<Rightarrow> w | Some s \<Rightarrow> socket_close sys s w);
          (rc, w2) = layer_initialize (top_layer plc) w1
      in (plc\<lparr>is_connected := False\<rparr>, w2))"

text \<open>
  The body of \<^verbatim>\<open>DISCONNECT_ON_ERROR\<close> when its condition holds: double the retry
  interval, cap it, set the retry time from \<^verbatim>\<open>time_ms()\<close>, go to \<^verbatim>\<open>state_start_disconnect\<close>
  and leave the state function with \<^verbatim>\<open>PLCTAG_STATUS_PENDING\<close>.
\<close>

definition DISCONNECT_ON_ERROR ::
  "'w sys \<Rightarrow> ('w, 'c) plc \<Rightarrow> 'w \<Rightarrow> status \<times> ('w, 'c) plc \<times> 'w" where
  "DISCONNECT_ON_ERROR sys plc w =
     (let doubled = wrap_int (retry_interval_ms plc * 2);
          interval = (if doubled > MAX_RETRY_INTERVAL_MS then MAX_RETRY_INTERVAL_MS else doubled);
          (now, w1) = time_ms sys w
      in (PLCTAG_STATUS_PENDING,
          plc\<lparr>retry_interval_ms := interval,
              next_retry_time := wrap_int64 (now + interval),
              state_func := S_start_disconnect\<rparr>,
          w1))"

text \<open>
  The body of \<^verbatim>\<open>RESET_ON_ERROR\<close> when its condition holds: \<^verbatim>\<open>reset_plc\<close>, the same
  doubling, back to \<^verbatim>\<open>state_dispatch_requests\<close> with \<^verbatim>\<open>PLCTAG_STATUS_OK\<close>.
\<close>

definition RESET_ON_ERROR ::
  "'w sys \<Rightarrow> ('w, 'c) plc \<Rightarrow> 'w \<Rightarrow> status \<times> ('w, 'c) plc \<times> 'w" where
  "RESET_ON_ERROR sys plc w =
     (let (plc1, w1) = reset_plc sys plc w;
          doubled = wrap_int (retry_interval_ms plc1 * 2);
          interval = (if doubled > MAX_RETRY_INTERVAL_MS then MAX_RETRY_INTERVAL_MS else doubled);
          (now, w2) = time_ms sys w1
      in (PLCTAG_STATUS_OK,
          plc1\<lparr>retry_interval_ms := interval,
               next_retry_time := wrap_int64 (now + interval),
               state_func := S_dispatch_requests\<rparr>,
          w2))"

text \<open>
  \<^verbatim>\<open>CONTINUE_UNLESS\<close> and \<^verbatim>\<open>CHECK_TERMINATION\<close> have the same body: back to
  \<^verbatim>\<open>state_dispatch_requests\<close> with \<^verbatim>\<open>PLCTAG_STATUS_PENDING\<close>.
\<close>

definition CONTINUE_UNLESS :: "('w, 'c) plc \<Rightarrow> 'w \<Rightarrow> status \<times> ('w, 'c) plc \<times> 'w" where
  "CONTINUE_UNLESS plc w = (PLCTAG_STATUS_PENDING, plc\<lparr>state_func := S_dispatch_requests\<rparr>, w)"

definition CHECK_TERMINATION :: "('w, 'c) plc \<Rightarrow> 'w \<Rightarrow> status \<times> ('w, 'c) plc \<times> 'w" where
  "CHECK_TERMINATION plc w = (PLCTAG_STATUS_PENDING, plc\<lparr>state_func := S_dispatch_requests\<rparr>, w)"

subsection \<open>The dispatch states\<close>

definition state_dispatch_requests ::
  "'w sys \<Rightarrow> ('w, 'c) plc \<Rightarrow> 'w \<Rightarrow> status \<times> ('w, 'c) plc \<times> 'w" where
  "state_dispatch_requests sys plc w =
     (let (now, w1) = event_loop_time sys w in
      if is_terminating plc then
        (if is_connected plc
         then (PLCTAG_STATUS_PENDING, plc\<lparr>state_func := S_start_disconnect\<rparr>, w1)
         else (PLCTAG_STATUS_OK, plc\<lparr>state_func := S_terminate\<rparr>, w1))
      else if is_connected plc \<and> next_idle_timeout plc < now then
        (PLCTAG_STATUS_PENDING, plc\<lparr>state_func := S_start_disconnect\<rparr>, w1)
      else
        (let (now2, w2) = event_loop_time sys w1 in
         if next_retry_time plc > now2 then (PLCTAG_STATUS_OK, plc, w2)
         else if request_list plc \<noteq> [] then
           (if \<not> is_connected plc
            then (PLCTAG_STATUS_PENDING, plc\<lparr>state_func := S_start_connect\<rparr>, w2)
            else (PLCTAG_STATUS_PENDING, plc\<lparr>state_func := S_reserve_space_for_tag_request\<rparr>, w2))
         else (PLCTAG_STATUS_OK, plc\<lparr>state_func := S_dispatch_requests\<rparr>, w2)))"

definition state_reserve_space_for_tag_request ::
  "'w sys \<Rightarrow> ('w, 'c) plc \<Rightarrow> 'w \<Rightarrow> status \<times> ('w, 'c) plc \<times> 'w" where
  "state_reserve_space_for_tag_request sys plc w =
     (let (rc, w1, sp, rid) =
            layer_reserve_space (top_layer plc) w (data_capacity plc)
              \<lparr>sp_buf = data plc, sp_start = 0, sp_end = 0\<rparr> 0;
          plc1 = plc\<lparr>data := sp_buf sp\<rparr>
      in if rc \<noteq> PLCTAG_STATUS_OK then DISCONNECT_ON_ERROR sys plc1 w1
         else (PLCTAG_STATUS_PENDING,
               plc1\<lparr>payload_start := sp_start sp,
                    payload_end := sp_end sp,
                    current_request_id := rid,
                    state_func := S_build_tag_request\<rparr>,
               w1))"

text \<open>
  The loop of \<^verbatim>\<open>state_build_tag_request\<close>. \<open>pre\<close> are the requests already handled
  in this run (with their ids recorded), the next list starts at \<^verbatim>\<open>current_request\<close>;
  \<open>sp\<close> holds the locals \<^verbatim>\<open>data_start\<close> and \<^verbatim>\<open>data_end\<close>. An empty list is
  \<^verbatim>\<open>current_request == NULL\<close>, which the C code can only meet on the first pass; it
  and \<^verbatim>\<open>CHECK_TERMINATION\<close> leave the function in the same way. The second
  \<^verbatim>\<open>CHECK_TERMINATION\<close>, before the write, reads the flag that the first one has just
  read: nothing in between writes it.
\<close>

fun build_tag_request_loop ::
  "'w sys \<Rightarrow> ('w, 'c) plc \<Rightarrow> 'w \<Rightarrow> ('w, 'c) plc_request list \<Rightarrow> ('w, 'c) plc_request list \<Rightarrow>
   span \<Rightarrow> int \<Rightarrow> int \<Rightarrow> bool \<Rightarrow> status \<times> ('w, 'c) plc \<times> 'w" where
  "build_tag_request_loop sys plc w pre [] sp old_data_end rid first_try =
     (if is_terminating plc then CHECK_TERMINATION plc w
      else (PLCTAG_STATUS_PENDING, plc\<lparr>state_func := S_dispatch_requests\<rparr>, w))"
| "build_tag_request_loop sys plc w pre (current_request # rest) sp old_data_end rid first_try =
     (if is_terminating plc then CHECK_TERMINATION plc w
      else
        (let (rc, w1, sp1) =
               build_request current_request (req_context current_request) w
                 (data_capacity plc) sp rid;
             plc1 = plc\<lparr>data := sp_buf sp1\<rparr>
         in if rc \<noteq> PLCTAG_STATUS_OK \<and> rc \<noteq> PLCTAG_ERR_TOO_SMALL
            then DISCONNECT_ON_ERROR sys plc1 w1
            else if rc = PLCTAG_ERR_TOO_SMALL \<and> first_try
            then DISCONNECT_ON_ERROR sys plc1 w1
            else
              (let sp2 = (if rc = PLCTAG_ERR_TOO_SMALL then sp1\<lparr>sp_end := old_data_end\<rparr> else sp1);
                   old_data_end2 = (if rc = PLCTAG_ERR_TOO_SMALL then old_data_end else sp_end sp1);
                   recorded = current_request\<lparr>req_id := rid\<rparr>;
                   plc2 = plc1\<lparr>request_list := pre @ recorded # rest\<rparr>;
                   (rc2, w2, sp3, rid2) =
                     layer_build_layer (top_layer plc2) w1 (data_capacity plc2) sp2 rid;
                   plc3 = plc2\<lparr>data := sp_buf sp3\<rparr>
               in if rc2 \<noteq> PLCTAG_STATUS_OK \<and> rc2 \<noteq> PLCTAG_STATUS_PENDING
                  then DISCONNECT_ON_ERROR sys plc3 w2
                  else if rc2 \<noteq> PLCTAG_STATUS_OK \<and> rest \<noteq> []
                  then build_tag_request_loop sys plc3 w2 (pre @ [recorded]) rest
                         sp3 old_data_end2 rid2 False
                  else
                    (let data_end = (if rc2 = PLCTAG_STATUS_OK then sp_end sp3 else old_data_end2)
                     in if is_terminating plc3 then CHECK_TERMINATION plc3 w2
                        else
                          (let plc4 = plc3\<lparr>payload_end := data_end,
                                           state_func := S_tag_request_sent\<rparr>;
                               (rc3, w3) =
                                 socket_callback_when_write_done sys (socket plc4) (data plc4)
                                   (payload_end plc4) w2
                           in if rc3 \<noteq> PLCTAG_STATUS_OK then DISCONNECT_ON_ERROR sys plc4 w3
                              else (PLCTAG_STATUS_OK, plc4, w3))))))"

definition state_build_tag_request ::
  "'w sys \<Rightarrow> ('w, 'c) plc \<Rightarrow> 'w \<Rightarrow> status \<times> ('w, 'c) plc \<times> 'w" where
  "state_build_tag_request sys plc w =
     build_tag_request_loop sys plc w [] (request_list plc)
       \<lparr>sp_buf = data plc, sp_start = payload_start plc, sp_end = payload_end plc\<rparr>
       (payload_end plc) (current_request_id plc) True"

definition state_tag_request_sent ::
  "'w sys \<Rightarrow> ('w, 'c) plc \<Rightarrow> 'w \<Rightarrow> status \<times> ('w, 'c) plc \<times> 'w" where
  "state_tag_request_sent sys plc w =
     (let (rc, w1) = socket_status sys (socket plc) w in
      if rc = PLCTAG_STATUS_PENDING then (PLCTAG_STATUS_OK, plc, w1)
      else if rc \<noteq> PLCTAG_STATUS_OK then DISCONNECT_ON_ERROR sys plc w1
      else
        (let (rc2, w2, sp, rid) =
               layer_reserve_space (top_layer plc) w1 (data_capacity plc)
                 \<lparr>sp_buf = data plc, sp_start = 0, sp_end = 0\<rparr> 0;
             plc1 = plc\<lparr>data := sp_buf sp\<rparr>
         in if rc2 \<noteq> PLCTAG_STATUS_OK then DISCONNECT_ON_ERROR sys plc1 w2
            else
              (let plc2 = plc1\<lparr>state_func := S_tag_response_ready,
                               payload_start := 0, payload_end := 0\<rparr>;
                   (rc3, w3) =
                     socket_callback_when_read_done sys (socket plc2) (data plc2)
                       (data_capacity plc2) w2
               in if rc3 \<noteq> PLCTAG_STATUS_OK then DISCONNECT_ON_ERROR sys plc2 w3
                  else (PLCTAG_STATUS_OK, plc2, w3))))"

text \<open>
  \<^verbatim>\<open>state_tag_response_ready\<close>. The C body is a \<^verbatim>\<open>do { ... } while(!done)\<close> loop whose
  flag \<^verbatim>\<open>done\<close> is initialised to \<^verbatim>\<open>true\<close> and never set to \<^verbatim>\<open>false\<close>: the body runs once
  and every path that reaches its end goes through \<^verbatim>\<open>if(done == true)\<close> to
  \<^verbatim>\<open>state_dispatch_requests\<close>.
\<close>

definition state_tag_response_ready ::
  "'w sys \<Rightarrow> ('w, 'c) plc \<Rightarrow> 'w \<Rightarrow> status \<times> ('w, 'c) plc \<times> 'w" where
  "state_tag_response_ready sys plc w =
     (if is_terminating plc then CHECK_TERMINATION plc w
      else
        (let (rc, w1) = socket_status sys (socket plc) w in
         if rc = PLCTAG_STATUS_PENDING then (PLCTAG_STATUS_OK, plc, w1)
         else if rc \<noteq> PLCTAG_STATUS_OK then DISCONNECT_ON_ERROR sys plc w1
         else
           (let (rc2, w2, sp, rid) =
                  layer_process_response (top_layer plc) w1 (data_capacity plc)
                    \<lparr>sp_buf = data plc, sp_start = 0, sp_end = payload_end plc\<rparr> 0;
                plc1 = plc\<lparr>data := sp_buf sp\<rparr>
            in if rc2 \<noteq> PLCTAG_STATUS_OK \<and> rc2 \<noteq> PLCTAG_ERR_PARTIAL
               then DISCONNECT_ON_ERROR sys plc1 w2
               else if rc2 = PLCTAG_ERR_PARTIAL then
                 (let plc2 = plc1\<lparr>state_func := S_tag_response_ready\<rparr>;
                      (rc3, w3) =
                        socket_callback_when_read_done sys (socket plc2) (data plc2)
                          (data_capacity plc2) w2
                  in if rc3 \<noteq> PLCTAG_STATUS_OK then DISCONNECT_ON_ERROR sys plc2 w3
                     else (PLCTAG_STATUS_OK, plc2, w3))
               else
                 (case request_list plc1 of
                    [] \<Rightarrow> (PLCTAG_STATUS_PENDING, plc1\<lparr>state_func := S_dispatch_requests\<rparr>, w2)
                  | request # rest \<Rightarrow>
                      if rid = req_id request then
                        (let plc2 = plc1\<lparr>request_list := rest\<rparr>;
                             (rc3, w3, sp2) =
                               process_response request (req_context request) w2
                                 (data_capacity plc2) sp (req_id request);
                             plc3 = plc2\<lparr>data := sp_buf sp2\<rparr>
                         in if rc3 \<noteq> PLCTAG_STATUS_OK then DISCONNECT_ON_ERROR sys plc3 w3
                            else (PLCTAG_STATUS_PENDING,
                                  plc3\<lparr>state_func := S_dispatch_requests\<rparr>, w3))
                      else (PLCTAG_STATUS_PENDING,
                            plc1\<lparr>state_func := S_dispatch_requests\<rparr>, w2)))))"

subsection \<open>The connect states\<close>

definition state_start_connect ::
  "'w sys \<Rightarrow> ('w, 'c) plc \<Rightarrow> 'w \<Rightarrow> status \<times> ('w, 'c) plc \<times> 'w" where
  "state_start_connect sys plc w =
     (if is_terminating plc then CHECK_TERMINATION plc w
      else
        (let (now, w1) = event_loop_time sys w in
         if next_retry_time plc > now then CONTINUE_UNLESS plc w1
         else if is_connected plc then CONTINUE_UNLESS plc w1
         else
           (let (rc, plc1, w2) =
                  (if socket plc = None
                   then (let (rc0, s, w') = socket_create sys w1 in (rc0, plc\<lparr>socket := s\<rparr>, w'))
                   else (PLCTAG_STATUS_OK, plc, w1))
            in if rc \<noteq> PLCTAG_STATUS_OK then RESET_ON_ERROR sys plc1 w2
               else
                 (let (rc2, w3) = layer_initialize (top_layer plc1) w2 in
                  if rc2 \<noteq> PLCTAG_STATUS_OK then DISCONNECT_ON_ERROR sys plc1 w3
                  else
                    (let plc2 = plc1\<lparr>state_func := S_build_layer_connect_request\<rparr>;
                         (rc3, w4) =
                           socket_callback_when_connection_ready sys (socket plc2) (host plc2)
                             (port plc2) w3
                     in if rc3 \<noteq> PLCTAG_STATUS_OK then DISCONNECT_ON_ERROR sys plc2 w4
                        else (PLCTAG_STATUS_OK, plc2, w4))))))"

text \<open>
  In \<^verbatim>\<open>state_build_layer_connect_request\<close> the layer functions are handed the addresses of
  \<^verbatim>\<open>plc->payload_start\<close>, \<^verbatim>\<open>plc->payload_end\<close> and \<^verbatim>\<open>plc->current_request_id\<close>, so whatever
  they leave there is stored in the PLC, also when they return an error.
\<close>

definition state_build_layer_connect_request ::
  "'w sys \<Rightarrow> ('w, 'c) plc \<Rightarrow> 'w \<Rightarrow> status \<times> ('w, 'c) plc \<times> 'w" where
  "state_build_layer_connect_request sys plc w =
     (if is_terminating plc then CHECK_TERMINATION plc w
      else
        (let (rc, w1) = socket_status sys (socket plc) w in
         if rc = PLCTAG_STATUS_PENDING then (PLCTAG_STATUS_OK, plc, w1)
         else if rc \<noteq> PLCTAG_STATUS_OK then DISCONNECT_ON_ERROR sys plc w1
         else
           (let (rc2, w2, sp) =
                  layer_connect (top_layer plc) w1 (data_capacity plc)
                    \<lparr>sp_buf = data plc, sp_start = 0, sp_end = 0\<rparr>;
                plc1 = plc\<lparr>data := sp_buf sp, payload_start := sp_start sp,
                           payload_end := sp_end sp\<rparr>
            in if rc2 \<noteq> PLCTAG_STATUS_OK \<and> rc2 \<noteq> PLCTAG_STATUS_PENDING
               then DISCONNECT_ON_ERROR sys plc1 w2
               else if rc2 = PLCTAG_STATUS_OK
               then (PLCTAG_STATUS_OK,
                     plc1\<lparr>is_connected := True, state_func := S_dispatch_requests\<rparr>, w2)
               else
                 (let (rc3, w3, sp2, rid) =
                        layer_build_layer (top_layer plc1) w2 (data_capacity plc1)
                          \<lparr>sp_buf = data plc1, sp_start = payload_start plc1,
                           sp_end = payload_end plc1\<rparr>
                          (current_request_id plc1);
                      plc2 = plc1\<lparr>data := sp_buf sp2, payload_start := sp_start sp2,
                                  payload_end := sp_end sp2, current_request_id := rid\<rparr>
                  in if rc3 \<noteq> PLCTAG_STATUS_OK then DISCONNECT_ON_ERROR sys plc2 w3
                     else
                       (let plc3 = plc2\<lparr>state_func := S_layer_connect_request_sent\<rparr>;
                            (rc4, w4) =
                              socket_callback_when_write_done sys (socket plc3) (data plc3)
                                (payload_end plc3) w3
                        in if rc4 \<noteq> PLCTAG_STATUS_OK then DISCONNECT_ON_ERROR sys plc3 w4
                           else (PLCTAG_STATUS_OK, plc3, w4))))))"

definition state_layer_connect_request_sent ::
  "'w sys \<Rightarrow> ('w, 'c) plc \<Rightarrow> 'w \<Rightarrow> status \<times> ('w, 'c) plc \<times> 'w" where
  "state_layer_connect_request_sent sys plc w =
     (if is_terminating plc then CHECK_TERMINATION plc w
      else
        (let (rc, w1) = socket_status sys (socket plc) w in
         if rc = PLCTAG_STATUS_PENDING then (PLCTAG_STATUS_OK, plc, w1)
         else if rc \<noteq> PLCTAG_STATUS_OK then DISCONNECT_ON_ERROR sys plc w1
         else
           (let plc1 = plc\<lparr>payload_start := 0, payload_end := 0,
                           state_func := S_layer_connect_response_ready\<rparr>;
                (rc2, w2) =
                  socket_callback_when_read_done sys (socket plc1) (data plc1)
                    (data_capacity plc1) w1
            in if rc2 \<noteq> PLCTAG_STATUS_OK then DISCONNECT_ON_ERROR sys plc1 w2
               else (PLCTAG_STATUS_OK, plc1, w2))))"

text \<open>
  When the layers accept the connect response the C function falls out of its
  \<^verbatim>\<open>do { } while(0)\<close> with \<^verbatim>\<open>rc == PLCTAG_STATUS_OK\<close> and without a \<^verbatim>\<open>NEXT_STATE\<close>: the last
  branch below.
\<close>

definition state_layer_connect_response_ready ::
  "'w sys \<Rightarrow> ('w, 'c) plc \<Rightarrow> 'w \<Rightarrow> status \<times> ('w, 'c) plc \<times> 'w" where
  "state_layer_connect_response_ready sys plc w =
     (if is_terminating plc then CHECK_TERMINATION plc w
      else
        (let (rc, w1) = socket_status sys (socket plc) w in
         if rc = PLCTAG_STATUS_PENDING then (PLCTAG_STATUS_OK, plc, w1)
         else if rc \<noteq> PLCTAG_STATUS_OK then DISCONNECT_ON_ERROR sys plc w1
         else
           (let (rc2, w2, sp, rid) =
                  layer_process_response (top_layer plc) w1 (data_capacity plc)
                    \<lparr>sp_buf = data plc, sp_start = 0, sp_end = payload_end plc\<rparr>
                    (current_request_id plc);
                plc1 = plc\<lparr>data := sp_buf sp, current_request_id := rid\<rparr>
            in if rc2 = PLCTAG_ERR_PARTIAL then (PLCTAG_STATUS_OK, plc1, w2)
               else if rc2 = PLCTAG_STATUS_RETRY
               then (PLCTAG_STATUS_PENDING,
                     plc1\<lparr>state_func := S_build_layer_connect_request\<rparr>, w2)
               else if rc2 \<noteq> PLCTAG_STATUS_OK then DISCONNECT_ON_ERROR sys plc1 w2
               else (PLCTAG_STATUS_OK, plc1, w2))))"

subsection \<open>The disconnect states\<close>

definition state_start_disconnect ::
  "'w sys \<Rightarrow> ('w, 'c) plc \<Rightarrow> 'w \<Rightarrow> status \<times> ('w, 'c) plc \<times> 'w" where
  "state_start_disconnect sys plc w =
     (if \<not> is_connected plc then CONTINUE_UNLESS plc w
      else (PLCTAG_STATUS_PENDING,
            plc\<lparr>payload_start := 0, payload_end := 0,
                state_func := S_build_layer_disconnect_request\<rparr>, w))"

definition state_build_layer_disconnect_request ::
  "'w sys \<Rightarrow> ('w, 'c) plc \<Rightarrow> 'w \<Rightarrow> status \<times> ('w, 'c) plc \<times> 'w" where
  "state_build_layer_disconnect_request sys plc w =
     (let (rc, w1, sp) =
            layer_disconnect (top_layer plc) w (data_capacity plc)
              \<lparr>sp_buf = data plc, sp_start = 0, sp_end = data_capacity plc\<rparr>;
          plc1 = plc\<lparr>data := sp_buf sp\<rparr>
      in if rc \<noteq> PLCTAG_STATUS_OK \<and> rc \<noteq> PLCTAG_STATUS_PENDING
         then RESET_ON_ERROR sys plc1 w1
         else if rc = PLCTAG_STATUS_OK
         then (PLCTAG_STATUS_OK, plc1\<lparr>is_connected := False\<rparr>, w1)
         else
           (let (rc2, w2, sp2, rid) =
                  layer_build_layer (top_layer plc1) w1 (data_capacity plc1) sp 0;
                plc2 = plc1\<lparr>data := sp_buf sp2\<rparr>
            in if rc2 \<noteq> PLCTAG_STATUS_OK then RESET_ON_ERROR sys plc2 w2
               else
                 (let plc3 = plc2\<lparr>payload_start := 0, payload_end := sp_end sp2,
                                  state_func := S_layer_disconnect_request_sent\<rparr>;
                      (rc3, w3) =
                        socket_callback_when_write_done sys (socket plc3) (data plc3)
                          (payload_end plc3) w2
                  in if rc3 \<noteq> PLCTAG_STATUS_OK then RESET_ON_ERROR sys plc3 w3
                     else (PLCTAG_STATUS_OK, plc3, w3))))"

definition state_layer_disconnect_request_sent ::
  "'w sys \<Rightarrow> ('w, 'c) plc \<Rightarrow> 'w \<Rightarrow> status \<times> ('w, 'c) plc \<times> 'w" where
  "state_layer_disconnect_request_sent sys plc w =
     (let (rc, w1) = socket_status sys (socket plc) w in
      if rc = PLCTAG_STATUS_PENDING then (PLCTAG_STATUS_OK, plc, w1)
      else if rc \<noteq> PLCTAG_STATUS_OK then RESET_ON_ERROR sys plc w1
      else
        (let plc1 = plc\<lparr>payload_start := 0, payload_end := 0,
                        state_func := S_layer_disconnect_response_ready\<rparr>;
             (rc2, w2) =
               socket_callback_when_read_done sys (socket plc1) (data plc1)
                 (data_capacity plc1) w1
         in if rc2 \<noteq> PLCTAG_STATUS_OK then RESET_ON_ERROR sys plc1 w2
            else (PLCTAG_STATUS_OK, plc1, w2)))"

definition state_layer_disconnect_response_ready ::
  "'w sys \<Rightarrow> ('w, 'c) plc \<Rightarrow> 'w \<Rightarrow> status \<times> ('w, 'c) plc \<times> 'w" where
  "state_layer_disconnect_response_ready sys plc w =
     (let (rc, w1) = socket_status sys (socket plc) w in
      if rc = PLCTAG_STATUS_PENDING then (PLCTAG_STATUS_OK, plc, w1)
      else if rc \<noteq> PLCTAG_STATUS_OK then RESET_ON_ERROR sys plc w1
      else
        (let (rc2, w2, sp, rid) =
               layer_process_response (top_layer plc) w1 (data_capacity plc)
                 \<lparr>sp_buf = data plc, sp_start = 0, sp_end = payload_end plc\<rparr>
                 (current_request_id plc);
             plc1 = plc\<lparr>data := sp_buf sp, current_request_id := rid\<rparr>
         in if rc2 = PLCTAG_ERR_PARTIAL then
              (let plc2 = plc1\<lparr>state_func := S_layer_disconnect_response_ready\<rparr>;
                   (rc3, w3) =
                     socket_callback_when_read_done sys (socket plc2) (data plc2)
                       (data_capacity plc2) w2
               in if rc3 \<noteq> PLCTAG_STATUS_OK then RESET_ON_ERROR sys plc2 w3
                  else (PLCTAG_STATUS_OK, plc2, w3))
            else if rc2 \<noteq> PLCTAG_STATUS_OK \<and> rc2 \<noteq> PLCTAG_STATUS_PENDING
            then RESET_ON_ERROR sys plc1 w2
            else if rc2 = PLCTAG_STATUS_PENDING
            then (PLCTAG_STATUS_PENDING,
                  plc1\<lparr>state_func := S_build_layer_disconnect_request\<rparr>, w2)
            else (PLCTAG_STATUS_OK, plc1\<lparr>is_connected := False\<rparr>, w2)))"

definition state_terminate ::
  "'w sys \<Rightarrow> ('w, 'c) plc \<Rightarrow> 'w \<Rightarrow> status \<times> ('w, 'c) plc \<times> 'w" where
  "state_terminate sys plc w = (PLCTAG_STATUS_OK, plc, w)"

subsection \<open>The state runner\<close>

text \<open>\<^verbatim>\<open>plc->state_func(plc)\<close>: the call through the function pointer.\<close>

definition call_state_func ::
  "'w sys \<Rightarrow> ('w, 'c) plc \<Rightarrow> 'w \<Rightarrow> status \<times> ('w, 'c) plc \<times> 'w" where
  "call_state_func sys plc w =
     (case state_func plc of
        S_dispatch_requests \<Rightarrow> state_dispatch_requests sys plc w
      | S_reserve_space_for_tag_request \<Rightarrow> state_reserve_space_for_tag_request sys plc w
      | S_build_tag_request \<Rightarrow> state_build_tag_request sys plc w
      | S_tag_request_sent \<Rightarrow> state_tag_request_sent sys plc w
      | S_tag_response_ready \<Rightarrow> state_tag_response_ready sys plc w
      | S_start_connect \<Rightarrow> state_start_connect sys plc w
      | S_build_layer_connect_request \<Rightarrow> state_build_layer_connect_request sys plc w
      | S_layer_connect_request_sent \<Rightarrow> state_layer_connect_request_sent sys plc w
      | S_layer_connect_response_ready \<Rightarrow> state_layer_connect_response_ready sys plc w
      | S_start_disconnect \<Rightarrow> state_start_disconnect sys plc w
      | S_build_layer_disconnect_request \<Rightarrow> state_build_layer_disconnect_request sys plc w
      | S_layer_disconnect_request_sent \<Rightarrow> state_layer_disconnect_request_sent sys plc w
      | S_layer_disconnect_response_ready \<Rightarrow> state_layer_disconnect_response_ready sys plc w
      | S_terminate \<Rightarrow> state_terminate sys plc w)"

text \<open>
  \<^verbatim>\<open>plc_state_runner\<close>: \<^verbatim>\<open>do { rc = plc->state_func(plc); } while(rc == PLCTAG_STATUS_PENDING)\<close>.
  Nothing bounds the number of passes (the collaborators decide every status), so the
  loop takes fuel: \<open>None\<close> is a run that has not come to rest within \<open>fuel\<close> passes.
\<close>

fun plc_state_runner ::
  "nat \<Rightarrow> 'w sys \<Rightarrow> ('w, 'c) plc \<Rightarrow> 'w \<Rightarrow> (('w, 'c) plc \<times> 'w) option" where
  "plc_state_runner 0 sys plc w = None"
| "plc_state_runner (Suc fuel) sys plc w =
     (let (rc, plc1, w1) = call_state_func sys plc w in
      if rc = PLCTAG_STATUS_PENDING then plc_state_runner fuel sys plc1 w1
      else Some (plc1, w1))"

subsection \<open>The buffer size\<close>

text \<open>
  \<^verbatim>\<open>plc_get_buffer_size\<close> returns an \<^verbatim>\<open>int\<close> that is an error code for the NULL PLC and
  the value read under the mutex otherwise: \<open>Inl\<close> the error, \<open>Inr\<close> the value.
\<close>

definition plc_get_buffer_size :: "('w, 'c) plc option \<Rightarrow> status + int" where
  "plc_get_buffer_size p =
     (case p of
        None \<Rightarrow> Inl PLCTAG_ERR_NULL_PTR
      | Some plc \<Rightarrow> Inr (payload_end plc))"

text \<open>
  \<^verbatim>\<open>plc_set_buffer_size\<close>. \<^verbatim>\<open>mem_realloc\<close> (\<^verbatim>\<open>util/mem.h\<close>) is a parameter: it is given
  the old buffer and the new size and returns the new buffer, or \<open>None\<close> (NULL) when the
  allocation fails. The result of \<^verbatim>\<open>mem_realloc\<close> is stored in \<^verbatim>\<open>plc->data\<close> before it is
  tested.
\<close>

definition plc_set_buffer_size ::
  "(byte list option \<Rightarrow> int \<Rightarrow> byte list option) \<Rightarrow> ('w, 'c) plc option \<Rightarrow> int \<Rightarrow>
   status \<times> ('w, 'c) plc option" where
  "plc_set_buffer_size mem_realloc p buffer_size =
     (case p of
        None \<Rightarrow> (PLCTAG_ERR_NULL_PTR, None)
      | Some plc \<Rightarrow>
          if buffer_size \<le> 0 then (PLCTAG_ERR_TOO_SMALL, Some plc)
          else if buffer_size > data_capacity plc then
            (let plc1 = plc\<lparr>data := mem_realloc (data plc) buffer_size\<rparr>
             in if data plc1 = None then (PLCTAG_ERR_NO_MEM, Some plc1)
                else (PLCTAG_STATUS_OK, Some (plc1\<lparr>data_capacity := buffer_size\<rparr>)))
          else (PLCTAG_STATUS_OK, Some plc))"

text \<open>
  A sequence of \<^verbatim>\<open>plc_set_buffer_size\<close> calls on one PLC, each with the requested size
  and with what the allocator does at that call; the statuses are dropped.
\<close>

fun set_buffer_sizes ::
  "('w, 'c) plc \<Rightarrow> ((byte list option \<Rightarrow> int \<Rightarrow> byte list option) \<times> int) list \<Rightarrow> ('w, 'c) plc" where
  "set_buffer_sizes plc [] = plc"
| "set_buffer_sizes plc ((mem_realloc, n) # calls) =
     (case snd (plc_set_buffer_size mem_realloc (Some plc) n) of
        None \<Rightarrow> plc
      | Some plc1 \<Rightarrow> set_buffer_sizes plc1 calls)"

subsection \<open>The request queue\<close>

text \<open>
  The walk \<^verbatim>\<open>while(*walker && *walker != request) walker = &((*walker)->next)\<close>:
  \<open>walker_finds\<close> is \<^verbatim>\<open>*walker != NULL\<close> after the walk, \<open>walker_unlink\<close> is the list after
  \<^verbatim>\<open>*walker = request->next\<close>.
\<close>

fun walker_finds :: "nat \<Rightarrow> ('w, 'c) plc_request list \<Rightarrow> bool" where
  "walker_finds request [] = False"
| "walker_finds request (r # rs) = (if req_addr r = request then True else walker_finds request rs)"

fun walker_unlink :: "nat \<Rightarrow> ('w, 'c) plc_request list \<Rightarrow> ('w, 'c) plc_request list" where
  "walker_unlink request [] = []"
| "walker_unlink request (r # rs) =
     (if req_addr r = request then rs else r # walker_unlink request rs)"

text \<open>
  \<^verbatim>\<open>plc_start_request\<close>. The critical block computes \<^verbatim>\<open>rc\<close>; the function then ends with
  \<^verbatim>\<open>return PLCTAG_STATUS_OK;\<close>. The result is \<open>None\<close> when the state runner it starts
  does not come to rest within the fuel.
\<close>

definition plc_start_request ::
  "nat \<Rightarrow> 'w sys \<Rightarrow> ('w, 'c) plc \<Rightarrow> 'w \<Rightarrow> nat \<Rightarrow> 'c \<Rightarrow>
   ('c \<Rightarrow> 'w \<Rightarrow> int \<Rightarrow> span \<Rightarrow> int \<Rightarrow> status \<times> 'w \<times> span) \<Rightarrow>
   ('c \<Rightarrow> 'w \<Rightarrow> int \<Rightarrow> span \<Rightarrow> int \<Rightarrow> status \<times> 'w \<times> span) \<Rightarrow>
   (status \<times> ('w, 'c) plc \<times> 'w) option" where
  "plc_start_request fuel sys plc w request client build_request_callback
     process_response_callback =
     (let critical_block =
            (if walker_finds request (request_list plc)
             then Some (PLCTAG_ERR_BUSY, plc, w)
             else
               (let linked = \<lparr>req_addr = request, req_context = client, req_id = - 1,
                              build_request = build_request_callback,
                              process_response = process_response_callback\<rparr>;
                    plc1 = plc\<lparr>request_list := request_list plc @ [linked]\<rparr>
                in if state_func plc1 = S_dispatch_requests
                   then (case plc_state_runner fuel sys plc1 w of
                           None \<Rightarrow> None
                         | Some (plc2, w2) \<Rightarrow> Some (PLCTAG_STATUS_OK, plc2, w2))
                   else Some (PLCTAG_STATUS_OK, plc1, w)))
      in case critical_block of
           None \<Rightarrow> None
         | Some (rc, plc3, w3) \<Rightarrow> Some (PLCTAG_STATUS_OK, plc3, w3))"

definition plc_stop_request :: "('w, 'c) plc \<Rightarrow> nat \<Rightarrow> status \<times> ('w, 'c) plc" where
  "plc_stop_request plc request =
     (if walker_finds request (request_list plc)
      then (PLCTAG_STATUS_OK, plc\<lparr>request_list := walker_unlink request (request_list plc)\<rparr>)
      else (PLCTAG_ERR_NOT_FOUND, plc))"

subsection \<open>The PLC between two state functions\<close>

text \<open>
  \<^verbatim>\<open>plc_state_runner\<close> calls one state function after the other. It is itself called by
  the socket and the timer (as the callback handed to them), by \<^verbatim>\<open>plc_heartbeat\<close>, by
  \<^verbatim>\<open>plc_start_request\<close> and by \<^verbatim>\<open>plc_rc_destroy\<close>. Before a state function is entered,
  and after it has returned, the PLC is changed by nothing but the following events:
  \<^item> \<open>State_function\<close>: the next call \<^verbatim>\<open>plc->state_func(plc)\<close>;
  \<^item> \<open>Socket_transfer n\<close>: \<^verbatim>\<open>socket_callback_when_write_done\<close> and
    \<^verbatim>\<open>socket_callback_when_read_done\<close> are handed \<^verbatim>\<open>&(plc->payload_end)\<close>, and the socket
    stores the length it has transferred there before it calls \<^verbatim>\<open>plc_state_runner\<close>. The
    source of the socket is not at hand: the value \<open>n\<close> it stores is a parameter;
  \<^item> \<open>Set_buffer_size\<close>: a call of \<^verbatim>\<open>plc_set_buffer_size\<close>, with what the allocator
    does at that call;
  \<^item> \<open>Start_request\<close>: \<^verbatim>\<open>plc_start_request\<close> puts a request on the queue (it then calls
    \<^verbatim>\<open>plc_state_runner\<close> if the PLC is in the dispatcher: further \<open>State_function\<close>
    events);
  \<^item> \<open>Stop_request\<close>: a call of \<^verbatim>\<open>plc_stop_request\<close>;
  \<^item> \<open>Initialize\<close>: \<^verbatim>\<open>plc_initialize\<close>, which is \<^verbatim>\<open>reset_plc\<close>;
  \<^item> \<open>Add_layer\<close>: \<^verbatim>\<open>plc_add_layer\<close> puts a layer on top of the stack;
  \<^item> \<open>Set_idle_timeout\<close>: \<^verbatim>\<open>plc_set_idle_timeout\<close> stores a timeout between 0 and 5000;
  \<^item> \<open>Destroy\<close>: \<^verbatim>\<open>plc_rc_destroy\<close> sets \<^verbatim>\<open>is_terminating\<close> (it then calls
    \<^verbatim>\<open>plc_state_runner\<close> if the PLC is connected).

  The other functions of \<^verbatim>\<open>plc.c\<close> read the PLC (\<^verbatim>\<open>plc_get_buffer_size\<close>,
  \<^verbatim>\<open>plc_get_idle_timeout\<close>, \<^verbatim>\<open>plc_get_context\<close>, \<^verbatim>\<open>plc_get_key\<close>) or write fields that
  are left out of the record (\<^verbatim>\<open>plc_set_context\<close>).
\<close>

datatype ('w, 'c) event =
    State_function
  | Socket_transfer int
  | Set_buffer_size "byte list option \<Rightarrow> int \<Rightarrow> byte list option" int
  | Start_request nat 'c
      "'c \<Rightarrow> 'w \<Rightarrow> int \<Rightarrow> span \<Rightarrow> int \<Rightarrow> status \<times> 'w \<times> span"
      "'c \<Rightarrow> 'w \<Rightarrow> int \<Rightarrow> span \<Rightarrow> int \<Rightarrow> status \<times> 'w \<times> span"
  | Stop_request nat
  | Initialize
  | Add_layer "'w plc_layer"
  | Set_idle_timeout int
  | Destroy

text \<open>
  The critical block of \<^verbatim>\<open>plc_start_request\<close> up to the call of the runner: a request
  that is not yet on the queue is filled in and linked at the end.
\<close>

definition link_request ::
  "('w, 'c) plc \<Rightarrow> nat \<Rightarrow> 'c \<Rightarrow>
   ('c \<Rightarrow> 'w \<Rightarrow> int \<Rightarrow> span \<Rightarrow> int \<Rightarrow> status \<times> 'w \<times> span) \<Rightarrow>
   ('c \<Rightarrow> 'w \<Rightarrow> int \<Rightarrow> span \<Rightarrow> int \<Rightarrow> status \<times> 'w \<times> span) \<Rightarrow> ('w, 'c) plc" where
  "link_request plc request client build_request_callback process_response_callback =
     (if walker_finds request (request_list plc) then plc
      else plc\<lparr>request_list := request_list plc @
             [\<lparr>req_addr = request, req_context = client, req_id = - 1,
               build_request = build_request_callback,
               process_response = process_response_callback\<rparr>]\<rparr>)"

fun engine_step ::
  "'w sys \<Rightarrow> ('w, 'c) plc \<times> 'w \<Rightarrow> ('w, 'c) event \<Rightarrow> ('w, 'c) plc \<times> 'w" where
  "engine_step sys (plc, w) State_function = snd (call_state_func sys plc w)"
| "engine_step sys (plc, w) (Socket_transfer n) = (plc\<lparr>payload_end := n\<rparr>, w)"
| "engine_step sys (plc, w) (Set_buffer_size mem_realloc n) =
     (case snd (plc_set_buffer_size mem_realloc (Some plc) n) of
        None \<Rightarrow> (plc, w)
      | Some plc1 \<Rightarrow> (plc1, w))"
| "engine_step sys (plc, w) (Start_request request client build_request_callback
     process_response_callback) =
     (link_request plc request client build_request_callback process_response_callback, w)"
| "engine_step sys (plc, w) (Stop_request request) = (snd (plc_stop_request plc request), w)"
| "engine_step sys (plc, w) Initialize = reset_plc sys plc w"
| "engine_step sys (plc, w) (Add_layer layer) = (plc\<lparr>top_layer := layer\<rparr>, w)"
| "engine_step sys (plc, w) (Set_idle_timeout timeout_ms) =
     (if timeout_ms < 0 \<or> timeout_ms > 5000 then (plc, w)
      else (plc\<lparr>idle_timeout_ms := timeout_ms\<rparr>, w))"
| "engine_step sys (plc, w) Destroy = (plc\<lparr>is_terminating := True\<rparr>, w)"

text \<open>The PLC and the world after a sequence of events.\<close>

definition engine_run ::
  "'w sys \<Rightarrow> ('w, 'c) plc \<times> 'w \<Rightarrow> ('w, 'c) event list \<Rightarrow> ('w, 'c) plc \<times> 'w" where
  "engine_run sys start events = foldl (engine_step sys) start events"

subsection \<open>The registry\<close>

text \<open>
  Modelled from the spec: \<^verbatim>\<open>str_cmp_i\<close> and \<^verbatim>\<open>str_length\<close> of \<^verbatim>\<open>util/string.h\<close>, whose
  source is not part of the repository files at hand. \<^verbatim>\<open>str_cmp_i\<close> compares two strings
  without regard to the case of ASCII letters and returns 0 exactly when they are equal
  in that sense, the difference of the first differing pair otherwise. An upper-case
  ASCII letter (65..90) becomes lower-case by setting bit 5 (adding 32).
\<close>

definition to_lower :: "char \<Rightarrow> char" where
  "to_lower c =
     (case c of
        Char b0 b1 b2 b3 b4 b5 b6 b7 \<Rightarrow>
          if 65 \<le> (of_char c :: nat) \<and> (of_char c :: nat) \<le> 90
          then Char b0 b1 b2 b3 b4 True b6 b7 else c)"

fun str_cmp_i :: "string \<Rightarrow> string \<Rightarrow> int" where
  "str_cmp_i [] [] = 0"
| "str_cmp_i [] (y # ys) = - 1"
| "str_cmp_i (x # xs) [] = 1"
| "str_cmp_i (x # xs) (y # ys) =
     (if to_lower x = to_lower y then str_cmp_i xs ys
      else int (of_char (to_lower x)) - int (of_char (to_lower y)))"

definition str_length :: "string \<Rightarrow> int" where
  "str_length s = int (length s)"

text \<open>
  Modelled from the spec: the attribute bag of \<^verbatim>\<open>util/attr.h\<close>, a string map consulted
  at construction. \<^verbatim>\<open>attr_get_str\<close> returns the default (possibly NULL, \<open>None\<close>) for a
  missing key; \<^verbatim>\<open>attr_get_int\<close> converts the value with the given conversion and returns
  the default for a missing or malformed value.
\<close>

type_synonym attr = "(string \<times> string) list"

definition attr_get_str :: "attr \<Rightarrow> string \<Rightarrow> string option \<Rightarrow> string option" where
  "attr_get_str attribs name def =
     (case map_of attribs name of None \<Rightarrow> def | Some v \<Rightarrow> Some v)"

definition attr_get_int :: "(string \<Rightarrow> status \<times> int) \<Rightarrow> attr \<Rightarrow> string \<Rightarrow> int \<Rightarrow> int" where
  "attr_get_int to_int attribs name def =
     (case map_of attribs name of
        None \<Rightarrow> def
      | Some v \<Rightarrow> (let (rc, n) = to_int v in if rc = PLCTAG_STATUS_OK then n else def))"

text \<open>
  Modelled from the spec: \<^verbatim>\<open>rc_inc\<close> of the reference-counting wrapper returns its
  argument with one more reference, and NULL for NULL.
\<close>

definition rc_inc :: "('w, 'c) plc option \<Rightarrow> ('w, 'c) plc option" where
  "rc_inc p =
     (case p of None \<Rightarrow> None | Some plc \<Rightarrow> Some (plc\<lparr>ref_count := ref_count plc + 1\<rparr>))"

text \<open>
  What \<^verbatim>\<open>plc_get\<close> obtains from the allocator, the string helpers, the mutex and the timer
  module: \<open>str_concat\<close> and \<open>rc_alloc\<close> return \<open>None\<close> when the allocation fails,
  \<open>rc_alloc\<close> the zero-filled new object otherwise; \<open>str_split\<close> returns the segments
  of the NULL-terminated array, \<open>None\<close> for a NULL array.
\<close>

record ('w, 'c) plc_get_env =
  str_concat :: "string list \<Rightarrow> string option"
  str_split :: "string \<Rightarrow> string \<Rightarrow> string list option"
  str_to_int :: "string \<Rightarrow> status \<times> int"
  rc_alloc :: "('w, 'c) plc option"
  mutex_create :: status
  timer_event_create :: status
  timer_event_wake_at :: status

text \<open>
  The search loop of \<^verbatim>\<open>plc_get\<close>:
  \<^verbatim>\<open>for(plc=plc_list; plc; plc = plc->next) { if(str_cmp_i(plc_key, plc->key) != 0) break; }\<close>.
  The result is the position of the PLC at which the loop breaks, \<open>None\<close> when it runs to
  the end of the list.
\<close>

fun find_plc :: "string \<Rightarrow> ('w, 'c) plc list \<Rightarrow> nat option" where
  "find_plc plc_key [] = None"
| "find_plc plc_key (plc # rest) =
     (if str_cmp_i plc_key (key plc) \<noteq> 0 then Some 0
      else (case find_plc plc_key rest of None \<Rightarrow> None | Some i \<Rightarrow> Some (Suc i)))"

text \<open>
  The port of the gateway string: the second segment, when there is a non-empty one, must
  convert to a number in 1..65535; otherwise the port is the \<^verbatim>\<open>default_port\<close> attribute.
\<close>

definition gateway_port ::
  "(string \<Rightarrow> status \<times> int) \<Rightarrow> string list \<Rightarrow> int \<Rightarrow> status + int" where
  "gateway_port to_int segments default_port =
     (case segments of
        [] \<Rightarrow> Inr default_port
      | s # _ \<Rightarrow>
          if str_length s \<noteq> 0 then
            (let (rc, n) = to_int s in
             if rc \<noteq> PLCTAG_STATUS_OK then Inl PLCTAG_ERR_BAD_GATEWAY
             else if n \<le> 0 \<or> n > 65535 then Inl PLCTAG_ERR_BAD_GATEWAY
             else Inr n)
          else Inr default_port)"

text \<open>
  The construction of a new PLC in \<^verbatim>\<open>plc_get\<close>, from \<^verbatim>\<open>rc_alloc\<close> to the line before the
  PLC is put on the list. \<open>Inl\<close> is the status of the step that failed (the half-built
  PLC is released again), \<open>Inr\<close> the finished PLC. The constructor of the dialect may
  add attributes (the default port).
\<close>

definition new_plc ::
  "('w, 'c) plc_get_env \<Rightarrow> string \<Rightarrow> attr \<Rightarrow>
   (('w, 'c) plc \<Rightarrow> attr \<Rightarrow> status \<times> ('w, 'c) plc \<times> attr) \<Rightarrow> status + ('w, 'c) plc" where
  "new_plc env plc_key attribs constructor =
     (case rc_alloc env of
        None \<Rightarrow> Inl PLCTAG_ERR_NO_MEM
      | Some blank \<Rightarrow>
          (let plc0 = blank\<lparr>key := plc_key\<rparr> in
           if mutex_create env \<noteq> PLCTAG_STATUS_OK then Inl (mutex_create env)
           else
             (let (rc, plc1, attribs1) = constructor plc0 attribs in
              if rc \<noteq> PLCTAG_STATUS_OK then Inl rc
              else
                (let port0 = attr_get_int (str_to_int env) attribs1 ''default_port'' 0 in
                 case attr_get_str attribs1 ''gateway'' None of
                   None \<Rightarrow> Inl PLCTAG_ERR_BAD_GATEWAY
                 | Some host_args \<Rightarrow>
                     if str_length host_args = 0 then Inl PLCTAG_ERR_BAD_GATEWAY
                     else
                       (case str_split env host_args '':'' of
                          None \<Rightarrow> Inl PLCTAG_ERR_BAD_GATEWAY
                        | Some [] \<Rightarrow> Inl PLCTAG_ERR_BAD_GATEWAY
                        | Some (h # segments) \<Rightarrow>
                            if str_length h = 0 then Inl PLCTAG_ERR_BAD_GATEWAY
                            else
                              (case gateway_port (str_to_int env) segments port0 of
                                 Inl e \<Rightarrow> Inl e
                               | Inr port1 \<Rightarrow>
                                   (let plc2 = plc1\<lparr>host := h,
                                          idle_timeout_ms :=
                                            attr_get_int (str_to_int env) attribs1
                                              ''idle_timeout_ms'' DEFAULT_IDLE_TIMEOUT_MS\<rparr>
                                    in if timer_event_create env \<noteq> PLCTAG_STATUS_OK
                                       then Inl (timer_event_create env)
                                       else if timer_event_wake_at env \<noteq> PLCTAG_STATUS_OK
                                       then Inl (timer_event_wake_at env)
                                       else Inr (plc2\<lparr>port := port1,
                                                   state_func := S_dispatch_requests\<rparr>))))))))"

text \<open>
  \<^verbatim>\<open>plc_get\<close>: the status, \<^verbatim>\<open>*plc_return\<close> and the registry list afterwards. A PLC found
  by the search loop gets one more reference, in the list too (the list holds the object
  itself); a new PLC is put at the head of the list. A NULL among the arguments of
  \<^verbatim>\<open>str_concat\<close> ends the argument list, so a NULL path is the empty string.
\<close>

definition plc_get ::
  "('w, 'c) plc_get_env \<Rightarrow> ('w, 'c) plc list \<Rightarrow> string \<Rightarrow> attr \<Rightarrow>
   (('w, 'c) plc \<Rightarrow> attr \<Rightarrow> status \<times> ('w, 'c) plc \<times> attr) \<Rightarrow>
   status \<times> ('w, 'c) plc option \<times> ('w, 'c) plc list" where
  "plc_get env plc_list plc_type attribs constructor =
     (case attr_get_str attribs ''gateway'' None of
        None \<Rightarrow> (PLCTAG_ERR_BAD_GATEWAY, None, plc_list)
      | Some gateway \<Rightarrow>
          if str_length gateway = 0 then (PLCTAG_ERR_BAD_GATEWAY, None, plc_list)
          else
            (let path = (case attr_get_str attribs ''path'' (Some ''NO_PATH'') of
                           None \<Rightarrow> [] | Some s \<Rightarrow> s)
             in case str_concat env [plc_type, ''/'', gateway, ''/'', path] of
                  None \<Rightarrow> (PLCTAG_ERR_NO_MEM, None, plc_list)
                | Some plc_key \<Rightarrow>
                    (let found = find_plc plc_key plc_list in
                     case rc_inc (case found of None \<Rightarrow> None | Some i \<Rightarrow> Some (plc_list ! i)) of
                       Some plc \<Rightarrow>
                         (PLCTAG_STATUS_OK, Some plc,
                          (case found of None \<Rightarrow> plc_list | Some i \<Rightarrow> plc_list[i := plc]))
                     | None \<Rightarrow>
                         (case new_plc env plc_key attribs constructor of
                            Inl e \<Rightarrow> (e, None, plc_list)
                          | Inr plc \<Rightarrow> (PLCTAG_STATUS_OK, Some plc, plc # plc_list)))))"

section \<open>Properties\<close>

subsection \<open>The payload markers and the offsets the callbacks return\<close>

text \<open>
  The invariant I2 of the buffer, and the same with a payload start that is not negative.
\<close>

definition buffer_inv :: "('w, 'c) plc \<Rightarrow> bool" where
  "buffer_inv plc \<longleftrightarrow> payload_start plc \<le> payload_end plc \<and> payload_end plc \<le> data_capacity plc"

definition payload_in_buffer :: "('w, 'c) plc \<Rightarrow> bool" where
  "payload_in_buffer plc \<longleftrightarrow> 0 \<le> payload_start plc \<and> buffer_inv plc"

text \<open>
  What it means that a callback keeps the offsets it is handed within the bounds of a
  buffer of capacity \<open>cap\<close>. The callback is handed the span \<open>sp\<close> and leaves the
  span \<open>sp'\<close>. If both offsets it is handed lie in the buffer (between 0 and
  \<open>cap\<close>), then so do the two it leaves; and if moreover the start it is handed is not
  after the end, then the same holds of what it leaves. A callback that is handed an
  offset outside the buffer may leave anything. The offsets are taken one by one because
  the engine itself can hand a callback a start that is after the end (lemma
  \<open>state_build_tag_request_hands_start_after_end\<close>).

  A layer keeps the offsets when each of its five functions that are handed offsets does,
  a request when its two callbacks do. A callback that leaves the offsets as they are
  keeps them.
\<close>

definition offsets_in_buffer :: "int \<Rightarrow> span \<Rightarrow> bool" where
  "offsets_in_buffer cap sp \<longleftrightarrow>
     0 \<le> sp_start sp \<and> sp_start sp \<le> cap \<and> 0 \<le> sp_end sp \<and> sp_end sp \<le> cap"

definition keeps_offsets :: "int \<Rightarrow> span \<Rightarrow> span \<Rightarrow> bool" where
  "keeps_offsets cap sp sp' \<longleftrightarrow>
     (offsets_in_buffer cap sp \<longrightarrow>
        offsets_in_buffer cap sp' \<and> (sp_start sp \<le> sp_end sp \<longrightarrow> sp_start sp' \<le> sp_end sp'))"

definition layer_keeps :: "int \<Rightarrow> 'w plc_layer \<Rightarrow> bool" where
  "layer_keeps cap layer \<longleftrightarrow>
     (\<forall>w sp. keeps_offsets cap sp (snd (snd (layer_connect layer w cap sp))))
     \<and> (\<forall>w sp. keeps_offsets cap sp (snd (snd (layer_disconnect layer w cap sp))))
     \<and> (\<forall>w sp r. keeps_offsets cap sp (fst (snd (snd (layer_reserve_space layer w cap sp r)))))
     \<and> (\<forall>w sp r. keeps_offsets cap sp (fst (snd (snd (layer_build_layer layer w cap sp r)))))
     \<and> (\<forall>w sp r. keeps_offsets cap sp (fst (snd (snd (layer_process_response layer w cap sp r)))))"

definition request_keeps :: "int \<Rightarrow> ('w, 'c) plc_request \<Rightarrow> bool" where
  "request_keeps cap request \<longleftrightarrow>
     (\<forall>c w sp r. keeps_offsets cap sp (snd (snd (build_request request c w cap sp r))))
     \<and> (\<forall>c w sp r. keeps_offsets cap sp (snd (snd (process_response request c w cap sp r))))"

text \<open>The hypothesis of I2: the layer of the PLC and every queued request keep the offsets.\<close>

definition callbacks_keep :: "('w, 'c) plc \<Rightarrow> bool" where
  "callbacks_keep plc \<longleftrightarrow>
     layer_keeps (data_capacity plc) (top_layer plc)
     \<and> (\<forall>r \<in> set (request_list plc). request_keeps (data_capacity plc) r)"

text \<open>
  The further condition under which \<^verbatim>\<open>state_build_tag_request\<close> keeps I2. That state
  writes \<^verbatim>\<open>payload_end\<close> and leaves \<^verbatim>\<open>payload_start\<close> as \<^verbatim>\<open>reserve_space\<close> has set it,
  so no offset that the engine goes on with may get before that start, \<open>lo\<close>. A
  callback of that state that is handed two offsets in the buffer, both at or after
  \<open>lo\<close>, leaves at or after \<open>lo\<close>:
  \<^item> \<^verbatim>\<open>build_layer\<close>, when it returns ok (the frame is sent): the end;
  \<^item> \<^verbatim>\<open>build_layer\<close>, when it returns pending (the next request is handed the offsets):
    both offsets;
  \<^item> \<^verbatim>\<open>build_request\<close>, when it returns ok: both offsets;
  \<^item> \<^verbatim>\<open>build_request\<close>, when it returns too-small (the end is rolled back): the start.

  A callback that leaves the offsets as they are satisfies this, and so does one that
  sets the end to the start plus a length.
\<close>

definition offsets_from :: "int \<Rightarrow> span \<Rightarrow> bool" where
  "offsets_from lo sp \<longleftrightarrow> lo \<le> sp_start sp \<and> lo \<le> sp_end sp"

definition layer_stays_from :: "int \<Rightarrow> int \<Rightarrow> 'w plc_layer \<Rightarrow> bool" where
  "layer_stays_from lo cap layer \<longleftrightarrow>
     (\<forall>w sp r. offsets_in_buffer cap sp \<and> offsets_from lo sp \<longrightarrow>
        (fst (layer_build_layer layer w cap sp r) = PLCTAG_STATUS_OK \<longrightarrow>
           lo \<le> sp_end (fst (snd (snd (layer_build_layer layer w cap sp r)))))
        \<and> (fst (layer_build_layer layer w cap sp r) = PLCTAG_STATUS_PENDING \<longrightarrow>
           offsets_from lo (fst (snd (snd (layer_build_layer layer w cap sp r))))))"

definition request_stays_from :: "int \<Rightarrow> int \<Rightarrow> ('w, 'c) plc_request \<Rightarrow> bool" where
  "request_stays_from lo cap request \<longleftrightarrow>
     (\<forall>c w sp r. offsets_in_buffer cap sp \<and> offsets_from lo sp \<longrightarrow>
        (fst (build_request request c w cap sp r) = PLCTAG_STATUS_OK \<longrightarrow>
           offsets_from lo (snd (snd (build_request request c w cap sp r))))
        \<and> (fst (build_request request c w cap sp r) = PLCTAG_ERR_TOO_SMALL \<longrightarrow>
           lo \<le> sp_start (snd (snd (build_request request c w cap sp r)))))"

definition build_stays_from_start :: "('w, 'c) plc \<Rightarrow> bool" where
  "build_stays_from_start plc \<longleftrightarrow>
     layer_stays_from (payload_start plc) (data_capacity plc) (top_layer plc)
     \<and> (\<forall>r \<in> set (request_list plc).
           request_stays_from (payload_start plc) (data_capacity plc) r)"

text \<open>
  What an event must satisfy for I2 to hold after it. A state function is called with
  callbacks that keep the offsets, and \<^verbatim>\<open>state_build_tag_request\<close> with callbacks that
  stay at or after the payload start; the socket stores a length that is not before the
  payload start and not beyond the capacity. The other events are not restricted. A run
  is allowed when each of its events is, at the PLC it meets.
\<close>

fun event_allowed :: "('w, 'c) plc \<Rightarrow> ('w, 'c) event \<Rightarrow> bool" where
  "event_allowed plc State_function =
     (callbacks_keep plc
      \<and> (state_func plc = S_build_tag_request \<longrightarrow> build_stays_from_start plc))"
| "event_allowed plc (Socket_transfer n) = (payload_start plc \<le> n \<and> n \<le> data_capacity plc)"
| "event_allowed plc (Set_buffer_size mem_realloc n) = True"
| "event_allowed plc (Start_request request client build_request_callback
     process_response_callback) = True"
| "event_allowed plc (Stop_request request) = True"
| "event_allowed plc Initialize = True"
| "event_allowed plc (Add_layer layer) = True"
| "event_allowed plc (Set_idle_timeout timeout_ms) = True"
| "event_allowed plc Destroy = True"

fun run_allowed :: "'w sys \<Rightarrow> ('w, 'c) plc \<times> 'w \<Rightarrow> ('w, 'c) event list \<Rightarrow> bool" where
  "run_allowed sys start [] = True"
| "run_allowed sys start (ev # events) =
     (event_allowed (fst start) ev \<and> run_allowed sys (engine_step sys start ev) events)"

subsection \<open>The states of a run that starts in the dispatcher\<close>

text \<open>
  The states a run of the state runner can pass through when it starts in the dispatcher:
  a state function of this set that asks to go on at once (status pending) names a next
  state of the set.
\<close>

definition dispatch_run_states :: "state set" where
  "dispatch_run_states =
     {S_dispatch_requests, S_start_disconnect, S_build_layer_disconnect_request,
      S_start_connect, S_reserve_space_for_tag_request, S_build_tag_request}"

definition stays_in_run :: "status \<times> ('w, 'c) plc \<times> 'w \<Rightarrow> bool" where
  "stays_in_run res \<longleftrightarrow>
     fst res \<noteq> PLCTAG_STATUS_PENDING \<or> state_func (fst (snd res)) \<in> dispatch_run_states"

section \<open>Concrete collaborators\<close>

text \<open>
  One concrete world for the evaluations below: the list of the calls the engine has made
  to its collaborators, in order. The socket and the clock of \<open>test_sys\<close> always
  succeed, the clock reads \<open>t\<close>. Every function of \<open>test_layer\<close> returns the given
  status and request id and sets the span to the given offsets; \<open>test_request\<close> has
  callbacks that return the given statuses; a successful build ends the span \<open>len\<close>
  bytes after its start.
\<close>

datatype call =
    Clock
  | Socket_call string
  | Write_done int
  | Read_done
  | Layer_call string int int
  | Build_request nat int int int
  | Process_response nat int int int

definition test_sys :: "int \<Rightarrow> call list sys" where
  "test_sys t =
     \<lparr>time_ms = (\<lambda>w. (t, w @ [Clock])),
      event_loop_time = (\<lambda>w. (t, w @ [Clock])),
      socket_create = (\<lambda>w. (PLCTAG_STATUS_OK, Some 1, w @ [Socket_call ''create''])),
      socket_close = (\<lambda>s w. w @ [Socket_call ''close'']),
      socket_status = (\<lambda>s w. (PLCTAG_STATUS_OK, w @ [Socket_call ''status''])),
      socket_callback_when_connection_ready =
        (\<lambda>s h p w. (PLCTAG_STATUS_OK, w @ [Socket_call ''connect''])),
      socket_callback_when_write_done = (\<lambda>s b n w. (PLCTAG_STATUS_OK, w @ [Write_done n])),
      socket_callback_when_read_done = (\<lambda>s b c w. (PLCTAG_STATUS_OK, w @ [Read_done]))\<rparr>"

definition test_layer :: "status \<Rightarrow> int \<Rightarrow> int \<Rightarrow> int \<Rightarrow> call list plc_layer" where
  "test_layer rc s e rid =
     \<lparr>layer_initialize = (\<lambda>w. (PLCTAG_STATUS_OK, w @ [Layer_call ''initialize'' 0 0])),
      layer_connect =
        (\<lambda>w cap sp. (rc, w @ [Layer_call ''connect'' (sp_start sp) (sp_end sp)],
                      sp\<lparr>sp_start := s, sp_end := e\<rparr>)),
      layer_disconnect =
        (\<lambda>w cap sp. (rc, w @ [Layer_call ''disconnect'' (sp_start sp) (sp_end sp)],
                      sp\<lparr>sp_start := s, sp_end := e\<rparr>)),
      layer_reserve_space =
        (\<lambda>w cap sp r. (rc, w @ [Layer_call ''reserve_space'' (sp_start sp) (sp_end sp)],
                        sp\<lparr>sp_start := s, sp_end := e\<rparr>, rid)),
      layer_build_layer =
        (\<lambda>w cap sp r. (rc, w @ [Layer_call ''build_layer'' (sp_start sp) (sp_end sp)],
                        sp\<lparr>sp_start := s, sp_end := e\<rparr>, rid)),
      layer_process_response =
        (\<lambda>w cap sp r. (rc, w @ [Layer_call ''process_response'' (sp_start sp) (sp_end sp)],
                        sp\<lparr>sp_start := s, sp_end := e\<rparr>, rid))\<rparr>"

definition test_request ::
  "nat \<Rightarrow> int \<Rightarrow> status \<Rightarrow> int \<Rightarrow> status \<Rightarrow> (call list, unit) plc_request" where
  "test_request a i build_rc len process_rc =
     \<lparr>req_addr = a, req_context = (), req_id = i,
      build_request =
        (\<lambda>c w cap sp rid.
           (build_rc, w @ [Build_request a (sp_start sp) (sp_end sp) rid],
            if build_rc = PLCTAG_STATUS_OK then sp\<lparr>sp_end := sp_start sp + len\<rparr> else sp)),
      process_response =
        (\<lambda>c w cap sp rid.
           (process_rc, w @ [Process_response a (sp_start sp) (sp_end sp) rid], sp))\<rparr>"

text \<open>
  A connected PLC with a 64-byte buffer, in the given state, with the given layer and
  queue; and the PLC as \<^verbatim>\<open>plc_get\<close> creates it: zero-filled, then constructed, never
  connected, no buffer yet.
\<close>

definition test_plc ::
  "state \<Rightarrow> call list plc_layer \<Rightarrow> (call list, unit) plc_request list \<Rightarrow> (call list, unit) plc" where
  "test_plc st layer queue =
     \<lparr>key = ''ab/10.0.0.1/1,0'', ref_count = 1, is_terminating = False,
      host = ''10.0.0.1'', port = 44818, socket = Some 1,
      request_list = queue, current_request_id = 0, top_layer = layer, state_func = st,
      data = Some (replicate 64 0), data_capacity = 64, payload_end = 0, payload_start = 0,
      retry_interval_ms = 0, next_retry_time = 0,
      idle_timeout_ms = 5000, next_idle_timeout = 0, is_connected = True\<rparr>"

definition fresh_plc :: "(call list, unit) plc" where
  "fresh_plc =
     (test_plc S_dispatch_requests (test_layer PLCTAG_STATUS_OK 0 0 0) [])
       \<lparr>socket := None, data := None, data_capacity := 0, is_connected := False\<rparr>"

text \<open>
  The PLCs of the evaluations below, all with a layer that is not called or returns ok:
  \<^item> \<open>registered_plc\<close>: connected, in the dispatcher, nothing queued;
  \<^item> \<open>waiting_plc\<close>: not connected, in the dispatcher, one request queued, and a retry
    time of 5000 left by an earlier error;
  \<^item> \<open>busy_plc\<close>: waiting for a response, with the request at address 1 queued;
  \<^item> \<open>answered_plc\<close>: waiting for a response to its one request (id 7), with 14 bytes
    read; the layers find the response of request 7 in bytes 4 to 14;
  \<^item> \<open>two_responses_plc\<close>: waiting for the responses to two requests (ids 1 and 2), with
    20 bytes read and an idle deadline of 6000; the layers find the response of request 1
    in bytes 0 to 10 and return the given status.
\<close>

definition registered_plc :: "(call list, unit) plc" where
  "registered_plc = test_plc S_dispatch_requests (test_layer PLCTAG_STATUS_OK 0 0 0) []"

definition waiting_plc :: "(call list, unit) plc" where
  "waiting_plc =
     (test_plc S_dispatch_requests (test_layer PLCTAG_STATUS_OK 0 0 0)
        [test_request 1 (- 1) PLCTAG_STATUS_OK 10 PLCTAG_STATUS_OK])
     \<lparr>is_connected := False, next_retry_time := 5000\<rparr>"

definition busy_plc :: "(call list, unit) plc" where
  "busy_plc =
     test_plc S_tag_response_ready (test_layer PLCTAG_STATUS_OK 0 0 0)
       [test_request 1 7 PLCTAG_STATUS_OK 10 PLCTAG_STATUS_OK]"

definition answered_plc :: "(call list, unit) plc" where
  "answered_plc =
     (test_plc S_tag_response_ready (test_layer PLCTAG_STATUS_OK 4 14 7)
        [test_request 1 7 PLCTAG_STATUS_OK 10 PLCTAG_STATUS_OK])
     \<lparr>payload_end := 14\<rparr>"

definition two_responses_plc :: "status \<Rightarrow> (call list, unit) plc" where
  "two_responses_plc layer_rc =
     (test_plc S_tag_response_ready (test_layer layer_rc 0 10 1)
        [test_request 1 1 PLCTAG_STATUS_OK 10 PLCTAG_STATUS_OK,
         test_request 2 2 PLCTAG_STATUS_OK 10 PLCTAG_STATUS_OK])
     \<lparr>payload_end := 20, next_idle_timeout := 6000\<rparr>"

text \<open>
  A layer that packs several requests into one frame. \<^verbatim>\<open>reserve_space\<close> leaves bytes 4
  to 64 for the payload and names the request id 1; \<^verbatim>\<open>build_layer\<close> returns pending (more
  may be packed), leaves the bytes from \<open>gap\<close> bytes after the end of what has been
  built to 60 for the next request and names the next request id.
\<close>

definition packing_layer :: "int \<Rightarrow> call list plc_layer" where
  "packing_layer gap =
     (test_layer PLCTAG_STATUS_OK 4 64 1)
       \<lparr>layer_build_layer :=
          (\<lambda>w cap sp r.
             (PLCTAG_STATUS_PENDING, w @ [Layer_call ''build_layer'' (sp_start sp) (sp_end sp)],
              sp\<lparr>sp_start := sp_end sp + gap, sp_end := 60\<rparr>, r + 1))\<rparr>"

text \<open>
  Two PLCs that the dispatcher has just sent to \<^verbatim>\<open>state_reserve_space_for_tag_request\<close>,
  and the two as that state leaves them for \<^verbatim>\<open>state_build_tag_request\<close>:
  \<^item> \<open>queued_plc\<close> and \<open>packing_plc\<close>: three requests are queued; the first and the
    third need 10 bytes, the second returns too-small; the layer leaves no gap;
  \<^item> \<open>oversized_plc\<close> and \<open>oversized_packing_plc\<close>: the request that returns
    too-small is the first of the queue, the other one is queued behind it.
\<close>

definition queued_plc :: "(call list, unit) plc" where
  "queued_plc =
     test_plc S_reserve_space_for_tag_request (packing_layer 0)
       [test_request 1 (- 1) PLCTAG_STATUS_OK 10 PLCTAG_STATUS_OK,
        test_request 2 (- 1) PLCTAG_ERR_TOO_SMALL 50 PLCTAG_STATUS_OK,
        test_request 3 (- 1) PLCTAG_STATUS_OK 10 PLCTAG_STATUS_OK]"

definition packing_plc :: "(call list, unit) plc" where
  "packing_plc =
     queued_plc\<lparr>payload_start := 4, payload_end := 64, current_request_id := 1,
                state_func := S_build_tag_request\<rparr>"

definition oversized_plc :: "(call list, unit) plc" where
  "oversized_plc =
     test_plc S_reserve_space_for_tag_request (packing_layer 0)
       [test_request 2 (- 1) PLCTAG_ERR_TOO_SMALL 50 PLCTAG_STATUS_OK,
        test_request 3 (- 1) PLCTAG_STATUS_OK 10 PLCTAG_STATUS_OK]"

definition oversized_packing_plc :: "(call list, unit) plc" where
  "oversized_packing_plc =
     oversized_plc\<lparr>payload_start := 4, payload_end := 64, current_request_id := 1,
                   state_func := S_build_tag_request\<rparr>"

text \<open>An allocator that extends the buffer with zero bytes, and one that is out of memory.\<close>

definition test_realloc :: "byte list option \<Rightarrow> int \<Rightarrow> byte list option" where
  "test_realloc old n =
     Some (take (nat n) ((case old of None \<Rightarrow> [] | Some b \<Rightarrow> b) @ replicate (nat n) 0))"

definition failing_realloc :: "byte list option \<Rightarrow> int \<Rightarrow> byte list option" where
  "failing_realloc old n = None"

text \<open>
  A request of \<open>len\<close> bytes that looks at the space it is handed: it is built at the
  start of the space when it fits, and returns too-small and leaves the offsets as they
  are when it does not. Its response callback accepts every response.
\<close>

definition bounded_request :: "nat \<Rightarrow> int \<Rightarrow> (call list, unit) plc_request" where
  "bounded_request a len =
     \<lparr>req_addr = a, req_context = (), req_id = - 1,
      build_request =
        (\<lambda>c w cap sp rid.
           if sp_start sp + len \<le> sp_end sp
           then (PLCTAG_STATUS_OK, w @ [Build_request a (sp_start sp) (sp_end sp) rid],
                 sp\<lparr>sp_end := sp_start sp + len\<rparr>)
           else (PLCTAG_ERR_TOO_SMALL, w @ [Build_request a (sp_start sp) (sp_end sp) rid], sp)),
      process_response =
        (\<lambda>c w cap sp rid.
           (PLCTAG_STATUS_OK, w @ [Process_response a (sp_start sp) (sp_end sp) rid], sp))\<rparr>"

text \<open>
  A layer that puts one request into a frame. \<^verbatim>\<open>build_layer\<close> returns ok and a frame
  from 0 to \<open>frame_end\<close>; every other function returns ok, the offsets 4 and 64 (the
  payload area that \<^verbatim>\<open>reserve_space\<close> leaves) and the request id 7.
\<close>

definition framing_layer :: "int \<Rightarrow> call list plc_layer" where
  "framing_layer frame_end =
     (test_layer PLCTAG_STATUS_OK 4 64 7)
       \<lparr>layer_build_layer :=
          (\<lambda>w cap sp r.
             (PLCTAG_STATUS_OK, w @ [Layer_call ''build_layer'' (sp_start sp) (sp_end sp)],
              sp\<lparr>sp_start := 0, sp_end := frame_end\<rparr>, r))\<rparr>"

text \<open>
  \<^item> \<open>framing_plc\<close>: a connected PLC with a 64-byte buffer that the dispatcher has just
    sent to \<^verbatim>\<open>state_reserve_space_for_tag_request\<close>, with one request of 10 bytes queued
    and the given frame end;
  \<^item> \<open>created_plc\<close>: a PLC as \<^verbatim>\<open>plc_get\<close> creates it (no buffer, no socket, not
    connected, nothing queued), with a layer whose frames end at 24;
  \<^item> \<open>first_exchange\<close>: the events of the first exchange of \<open>created_plc\<close>. The buffer
    is set to 64 bytes and a request of 10 bytes is started; the state machine goes from
    the dispatcher through the connect states back to the dispatcher, reserves the space
    and builds the frame; the socket reports the 24 bytes written; the state machine sets
    up the read; the socket reports 14 bytes read; the response is handed to the request.
\<close>

definition framing_plc :: "int \<Rightarrow> (call list, unit) plc" where
  "framing_plc frame_end =
     test_plc S_reserve_space_for_tag_request (framing_layer frame_end) [bounded_request 1 10]"

definition created_plc :: "(call list, unit) plc" where
  "created_plc = fresh_plc\<lparr>top_layer := framing_layer 24\<rparr>"

definition first_exchange :: "(call list, unit) event list" where
  "first_exchange =
     [Set_buffer_size test_realloc 64,
      Start_request 1 () (build_request (bounded_request 1 10))
        (process_response (bounded_request 1 10)),
      State_function, State_function, State_function, State_function, State_function,
      State_function,
      Socket_transfer 24,
      State_function,
      Socket_transfer 14,
      State_function]"

text \<open>
  The collaborators of \<^verbatim>\<open>plc_get\<close>: every allocation succeeds, the new object is zero-filled
  with one reference, the gateway has no port part, the dialect constructor sets the
  default port.
\<close>

definition test_env :: "(call list, unit) plc_get_env" where
  "test_env =
     \<lparr>str_concat = (\<lambda>parts. Some (concat parts)),
      str_split = (\<lambda>s sep. Some [s]),
      str_to_int = (\<lambda>s. (PLCTAG_STATUS_OK, 44818)),
      rc_alloc =
        Some \<lparr>key = [], ref_count = 1, is_terminating = False, host = [], port = 0,
              socket = None, request_list = [], current_request_id = 0,
              top_layer = test_layer PLCTAG_STATUS_OK 0 0 0,
              state_func = S_dispatch_requests, data = None, data_capacity = 0,
              payload_end = 0, payload_start = 0, retry_interval_ms = 0, next_retry_time = 0,
              idle_timeout_ms = 0, next_idle_timeout = 0, is_connected = False\<rparr>,
      mutex_create = PLCTAG_STATUS_OK,
      timer_event_create = PLCTAG_STATUS_OK,
      timer_event_wake_at = PLCTAG_STATUS_OK\<rparr>"

definition test_constructor ::
  "(call list, unit) plc \<Rightarrow> attr \<Rightarrow> status \<times> (call list, unit) plc \<times> attr" where
  "test_constructor plc attribs = (PLCTAG_STATUS_OK, plc, (''default_port'', ''44818'') # attribs)"

section \<open>The error macros and the fields they leave alone\<close>

lemma DISCONNECT_ON_ERROR_keeps:
  "fst (DISCONNECT_ON_ERROR sys plc w) = PLCTAG_STATUS_PENDING"
  "state_func (fst (snd (DISCONNECT_ON_ERROR sys plc w))) = S_start_disconnect"
  "request_list (fst (snd (DISCONNECT_ON_ERROR sys plc w))) = request_list plc"
  "next_idle_timeout (fst (snd (DISCONNECT_ON_ERROR sys plc w))) = next_idle_timeout plc"
  "snd (snd (DISCONNECT_ON_ERROR sys plc w)) = snd (time_ms sys w)"
  by (simp_all add: DISCONNECT_ON_ERROR_def Let_def split: prod.splits)

text \<open>
  The new retry interval, in general and for an interval that can be doubled within the
  range of an \<^verbatim>\<open>int\<close> (every interval the engine itself stores is between 0 and 16000).
\<close>

lemma wrap_int_in_range [simp]:
  "- 2147483648 \<le> n \<Longrightarrow> n \<le> 2147483647 \<Longrightarrow> wrap_int n = n"
  by (simp add: wrap_int_def)

lemma wrap_int64_in_range [simp]:
  "- 9223372036854775808 \<le> n \<Longrightarrow> n \<le> 9223372036854775807 \<Longrightarrow> wrap_int64 n = n"
  by (simp add: wrap_int64_def)

lemma DISCONNECT_ON_ERROR_retry_interval_wrap:
  "retry_interval_ms (fst (snd (DISCONNECT_ON_ERROR sys plc w)))
     = min (wrap_int (2 * retry_interval_ms plc)) MAX_RETRY_INTERVAL_MS"
  by (simp add: DISCONNECT_ON_ERROR_def Let_def MAX_RETRY_INTERVAL_MS_def mult.commute
      split: prod.splits)

lemma RESET_ON_ERROR_retry_interval_wrap:
  "retry_interval_ms (fst (snd (RESET_ON_ERROR sys plc w)))
     = min (wrap_int (2 * retry_interval_ms plc)) MAX_RETRY_INTERVAL_MS"
  by (auto simp: RESET_ON_ERROR_def reset_plc_def Let_def MAX_RETRY_INTERVAL_MS_def mult.commute
      split: prod.splits)

lemma DISCONNECT_ON_ERROR_retry_interval:
  assumes "- 1073741824 \<le> retry_interval_ms plc" and "retry_interval_ms plc \<le> 1073741823"
  shows "retry_interval_ms (fst (snd (DISCONNECT_ON_ERROR sys plc w)))
           = min (2 * retry_interval_ms plc) MAX_RETRY_INTERVAL_MS"
  using assms by (simp add: DISCONNECT_ON_ERROR_retry_interval_wrap)

lemma RESET_ON_ERROR_retry_interval:
  assumes "- 1073741824 \<le> retry_interval_ms plc" and "retry_interval_ms plc \<le> 1073741823"
  shows "retry_interval_ms (fst (snd (RESET_ON_ERROR sys plc w)))
           = min (2 * retry_interval_ms plc) MAX_RETRY_INTERVAL_MS"
  using assms by (simp add: RESET_ON_ERROR_retry_interval_wrap)

lemma DISCONNECT_ON_ERROR_fields [simp]:
  "payload_start (fst (snd (DISCONNECT_ON_ERROR sys plc w))) = payload_start plc"
  "payload_end (fst (snd (DISCONNECT_ON_ERROR sys plc w))) = payload_end plc"
  "data_capacity (fst (snd (DISCONNECT_ON_ERROR sys plc w))) = data_capacity plc"
  "top_layer (fst (snd (DISCONNECT_ON_ERROR sys plc w))) = top_layer plc"
  "idle_timeout_ms (fst (snd (DISCONNECT_ON_ERROR sys plc w))) = idle_timeout_ms plc"
  by (simp_all add: DISCONNECT_ON_ERROR_def Let_def split: prod.splits)

lemma RESET_ON_ERROR_fields [simp]:
  "payload_start (fst (snd (RESET_ON_ERROR sys plc w))) = payload_start plc"
  "payload_end (fst (snd (RESET_ON_ERROR sys plc w))) = payload_end plc"
  "data_capacity (fst (snd (RESET_ON_ERROR sys plc w))) = data_capacity plc"
  "top_layer (fst (snd (RESET_ON_ERROR sys plc w))) = top_layer plc"
  "idle_timeout_ms (fst (snd (RESET_ON_ERROR sys plc w))) = idle_timeout_ms plc"
  "next_idle_timeout (fst (snd (RESET_ON_ERROR sys plc w))) = next_idle_timeout plc"
  by (auto simp: RESET_ON_ERROR_def reset_plc_def Let_def split: prod.splits)

lemma CHECK_TERMINATION_fields [simp]:
  "payload_start (fst (snd (CHECK_TERMINATION plc w))) = payload_start plc"
  "payload_end (fst (snd (CHECK_TERMINATION plc w))) = payload_end plc"
  "data_capacity (fst (snd (CHECK_TERMINATION plc w))) = data_capacity plc"
  "top_layer (fst (snd (CHECK_TERMINATION plc w))) = top_layer plc"
  "idle_timeout_ms (fst (snd (CHECK_TERMINATION plc w))) = idle_timeout_ms plc"
  "next_idle_timeout (fst (snd (CHECK_TERMINATION plc w))) = next_idle_timeout plc"
  by (simp_all add: CHECK_TERMINATION_def)

lemma CONTINUE_UNLESS_fields [simp]:
  "payload_start (fst (snd (CONTINUE_UNLESS plc w))) = payload_start plc"
  "payload_end (fst (snd (CONTINUE_UNLESS plc w))) = payload_end plc"
  "data_capacity (fst (snd (CONTINUE_UNLESS plc w))) = data_capacity plc"
  "top_layer (fst (snd (CONTINUE_UNLESS plc w))) = top_layer plc"
  "idle_timeout_ms (fst (snd (CONTINUE_UNLESS plc w))) = idle_timeout_ms plc"
  "next_idle_timeout (fst (snd (CONTINUE_UNLESS plc w))) = next_idle_timeout plc"
  by (simp_all add: CONTINUE_UNLESS_def)

lemmas state_defs =
  state_dispatch_requests_def state_reserve_space_for_tag_request_def
  state_tag_request_sent_def state_tag_response_ready_def state_start_connect_def
  state_build_layer_connect_request_def state_layer_connect_request_sent_def
  state_layer_connect_response_ready_def state_start_disconnect_def
  state_build_layer_disconnect_request_def state_layer_disconnect_request_sent_def
  state_layer_disconnect_response_ready_def state_terminate_def

section \<open>The response demultiplexer (C1)\<close>

text \<open>
  What the claim C1 has right, for all collaborators: when the socket is ready and the
  layers return ok with the request id of the queue head, the head leaves the queue and
  its callback runs on the span the layers returned; with another id the response is
  dropped and the queue is unchanged. In both cases the state function then ends.
\<close>

lemma state_tag_response_ready_match:
  assumes "\<not> is_terminating plc"
    and "socket_status sys (socket plc) w = (PLCTAG_STATUS_OK, w1)"
    and "layer_process_response (top_layer plc) w1 (data_capacity plc)
           \<lparr>sp_buf = data plc, sp_start = 0, sp_end = payload_end plc\<rparr> 0
         = (PLCTAG_STATUS_OK, w2, sp, rid)"
    and "request_list plc = request # rest"
    and "rid = req_id request"
    and "process_response request (req_context request) w2 (data_capacity plc) sp (req_id request)
         = (PLCTAG_STATUS_OK, w3, sp2)"
  shows "state_tag_response_ready sys plc w
         = (PLCTAG_STATUS_PENDING,
            plc\<lparr>data := sp_buf sp2, request_list := rest, state_func := S_dispatch_requests\<rparr>,
            w3)"
  using assms by (simp add: state_tag_response_ready_def)

lemma state_tag_response_ready_drop:
  assumes "\<not> is_terminating plc"
    and "socket_status sys (socket plc) w = (PLCTAG_STATUS_OK, w1)"
    and "layer_process_response (top_layer plc) w1 (data_capacity plc)
           \<lparr>sp_buf = data plc, sp_start = 0, sp_end = payload_end plc\<rparr> 0
         = (PLCTAG_STATUS_OK, w2, sp, rid)"
    and "request_list plc = request # rest"
    and "rid \<noteq> req_id request"
  shows "state_tag_response_ready sys plc w
         = (PLCTAG_STATUS_PENDING,
            plc\<lparr>data := sp_buf sp, state_func := S_dispatch_requests\<rparr>, w2)"
  using assms by (simp add: state_tag_response_ready_def)

lemma state_tag_response_ready_partial:
  assumes "\<not> is_terminating plc"
    and "socket_status sys (socket plc) w = (PLCTAG_STATUS_OK, w1)"
    and "layer_process_response (top_layer plc) w1 (data_capacity plc)
           \<lparr>sp_buf = data plc, sp_start = 0, sp_end = payload_end plc\<rparr> 0
         = (PLCTAG_ERR_PARTIAL, w2, sp, rid)"
    and "socket_callback_when_read_done sys (socket plc) (sp_buf sp) (data_capacity plc) w2
         = (PLCTAG_STATUS_OK, w3)"
  shows "state_tag_response_ready sys plc w
         = (PLCTAG_STATUS_OK,
            plc\<lparr>data := sp_buf sp, state_func := S_tag_response_ready\<rparr>, w3)"
  using assms by (simp add: state_tag_response_ready_def)

text \<open>
  A pending result of the layers is handled by \<^verbatim>\<open>DISCONNECT_ON_ERROR\<close>, for all
  collaborators: no request callback runs and the queue is unchanged.
\<close>

lemma state_tag_response_ready_pending:
  assumes "\<not> is_terminating plc"
    and "socket_status sys (socket plc) w = (PLCTAG_STATUS_OK, w1)"
    and "layer_process_response (top_layer plc) w1 (data_capacity plc)
           \<lparr>sp_buf = data plc, sp_start = 0, sp_end = payload_end plc\<rparr> 0
         = (PLCTAG_STATUS_PENDING, w2, sp, rid)"
  shows "state_tag_response_ready sys plc w
         = DISCONNECT_ON_ERROR sys (plc\<lparr>data := sp_buf sp\<rparr>) w2"
  using assms by (simp add: state_tag_response_ready_def)

text \<open>
  C1 at its failing inputs. Two requests (ids 1 and 2) are queued and the buffer holds 20
  bytes, two packed responses of 10 bytes. First, the layers return the first response
  (id 1, bytes 0 to 10) with the status pending, which the comment in the function
  reads as "multiple sub-packets remaining": the engine takes it as an error, backs off
  and goes to \<^verbatim>\<open>state_start_disconnect\<close>; both requests are still queued and no request
  callback has run. Second, the layers return the first response with the status ok: the
  callback of the first request runs, and the state function ends with the next state
  \<^verbatim>\<open>state_dispatch_requests\<close>; the second request is still queued and its callback has not
  run. In neither case are there two callback invocations within one entry into the state.
\<close>

theorem state_tag_response_ready_pending_is_error:
  "fst (state_tag_response_ready (test_sys 1000) (two_responses_plc PLCTAG_STATUS_PENDING) [])
     = PLCTAG_STATUS_PENDING
   \<and> state_func (fst (snd (state_tag_response_ready (test_sys 1000)
        (two_responses_plc PLCTAG_STATUS_PENDING) [])))
     = S_start_disconnect
   \<and> map req_addr (request_list (fst (snd (state_tag_response_ready (test_sys 1000)
        (two_responses_plc PLCTAG_STATUS_PENDING) []))))
     = [1, 2]
   \<and> snd (snd (state_tag_response_ready (test_sys 1000)
        (two_responses_plc PLCTAG_STATUS_PENDING) []))
     = [Socket_call ''status'', Layer_call ''process_response'' 0 20, Clock]
   \<and> state_func (fst (snd (state_tag_response_ready (test_sys 1000)
        (two_responses_plc PLCTAG_STATUS_OK) [])))
     = S_dispatch_requests
   \<and> map req_addr (request_list (fst (snd (state_tag_response_ready (test_sys 1000)
        (two_responses_plc PLCTAG_STATUS_OK) []))))
     = [2]
   \<and> snd (snd (state_tag_response_ready (test_sys 1000) (two_responses_plc PLCTAG_STATUS_OK) []))
     = [Socket_call ''status'', Layer_call ''process_response'' 0 20,
        Process_response 1 0 10 1]"
  by (simp add: state_tag_response_ready_def DISCONNECT_ON_ERROR_def Let_def
      MAX_RETRY_INTERVAL_MS_def two_responses_plc_def test_plc_def test_sys_def test_layer_def
      test_request_def)

section \<open>The registry lookup (C2)\<close>

lemma str_cmp_i_eq_0_iff: "str_cmp_i a b = 0 \<longleftrightarrow> map to_lower a = map to_lower b"
proof (induction a b rule: str_cmp_i.induct)
  case (4 x xs y ys)
  have "of_char (to_lower x) = (of_char (to_lower y) :: nat) \<longleftrightarrow> to_lower x = to_lower y"
    by (rule of_char_eq_iff)
  then show ?case
    using 4 by auto
qed simp_all

lemma find_plc_Some:
  "find_plc plc_key plcs = Some i \<Longrightarrow>
   i < length plcs \<and> str_cmp_i plc_key (key (plcs ! i)) \<noteq> 0"
proof (induction plcs arbitrary: i)
  case Nil
  then show ?case by simp
next
  case (Cons p ps)
  then show ?case
    by (auto split: if_splits option.splits)
qed

lemma find_plc_None:
  "find_plc plc_key plcs = None \<longleftrightarrow> (\<forall>p \<in> set plcs. str_cmp_i plc_key (key p) = 0)"
  by (induction plcs) (auto split: option.splits)

text \<open>
  C2 at its failing inputs. The registry holds one PLC, with the key
  \<^verbatim>\<open>ab/10.0.0.1/1,0\<close>. A \<^verbatim>\<open>plc_get\<close> for another gateway (key \<^verbatim>\<open>ab/10.0.0.2/NO_PATH\<close>, which
  does not compare equal) returns that PLC with one more reference and allocates nothing;
  a \<^verbatim>\<open>plc_get\<close> for the same type, gateway and path in other letter case (key
  \<^verbatim>\<open>AB/10.0.0.1/1,0\<close>, which compares equal) allocates a second PLC and links it in front
  of the first: the search loop breaks at the first key that differs.
\<close>

theorem plc_get_lookup_inverted:
  "key registered_plc = ''ab/10.0.0.1/1,0''
   \<and> str_cmp_i ''ab/10.0.0.2/NO_PATH'' (key registered_plc) \<noteq> 0
   \<and> plc_get test_env [registered_plc] ''ab'' [(''gateway'', ''10.0.0.2'')] test_constructor
       = (PLCTAG_STATUS_OK, Some (registered_plc\<lparr>ref_count := 2\<rparr>),
          [registered_plc\<lparr>ref_count := 2\<rparr>])
   \<and> str_cmp_i ''AB/10.0.0.1/1,0'' (key registered_plc) = 0
   \<and> fst (plc_get test_env [registered_plc] ''AB''
             [(''gateway'', ''10.0.0.1''), (''path'', ''1,0'')] test_constructor)
       = PLCTAG_STATUS_OK
   \<and> map key (snd (snd (plc_get test_env [registered_plc] ''AB''
             [(''gateway'', ''10.0.0.1''), (''path'', ''1,0'')] test_constructor)))
       = [''AB/10.0.0.1/1,0'', ''ab/10.0.0.1/1,0'']
   \<and> map ref_count (snd (snd (plc_get test_env [registered_plc] ''AB''
             [(''gateway'', ''10.0.0.1''), (''path'', ''1,0'')] test_constructor)))
       = [1, 1]"
proof -
  let ?p = "registered_plc"
  have k: "key ?p = ''ab/10.0.0.1/1,0''" and r: "ref_count ?p = 1"
    by (simp_all add: registered_plc_def test_plc_def)
  have differ: "str_cmp_i ''ab/10.0.0.2/NO_PATH'' ''ab/10.0.0.1/1,0'' \<noteq> 0"
    by (simp add: to_lower_def)
  have equal: "str_cmp_i ''AB/10.0.0.1/1,0'' ''ab/10.0.0.1/1,0'' = 0"
    by (simp add: to_lower_def)
  have other: "plc_get test_env [?p] ''ab'' [(''gateway'', ''10.0.0.2'')] test_constructor
       = (PLCTAG_STATUS_OK, Some (?p\<lparr>ref_count := 2\<rparr>), [?p\<lparr>ref_count := 2\<rparr>])"
    using differ
    by (simp add: plc_get_def attr_get_str_def str_length_def test_env_def rc_inc_def k r Let_def)
  have same: "plc_get test_env [?p] ''AB'' [(''gateway'', ''10.0.0.1''), (''path'', ''1,0'')]
        test_constructor
       = (PLCTAG_STATUS_OK,
          Some ((the (rc_alloc test_env))
                  \<lparr>key := ''AB/10.0.0.1/1,0'', host := ''10.0.0.1'',
                   idle_timeout_ms := 5000, port := 44818\<rparr>),
          [(the (rc_alloc test_env))
             \<lparr>key := ''AB/10.0.0.1/1,0'', host := ''10.0.0.1'',
              idle_timeout_ms := 5000, port := 44818\<rparr>, ?p])"
    using equal
    by (simp add: plc_get_def new_plc_def attr_get_str_def attr_get_int_def str_length_def
        gateway_port_def test_env_def test_constructor_def rc_inc_def k
        DEFAULT_IDLE_TIMEOUT_MS_def Let_def)
  show ?thesis
    using differ equal other same by (simp add: k r test_env_def)
qed

section \<open>The idle deadline (C3)\<close>

text \<open>
  The idle deadline and the idle timeout are written by no state function: whatever the
  collaborators do, a call through the state function pointer returns the PLC with the
  \<^verbatim>\<open>next_idle_timeout\<close> and the \<^verbatim>\<open>idle_timeout_ms\<close> it was given.
\<close>

lemma build_tag_request_loop_idle:
  "next_idle_timeout (fst (snd (build_tag_request_loop sys plc w pre reqs sp old_end rid first)))
     = next_idle_timeout plc
   \<and> idle_timeout_ms (fst (snd (build_tag_request_loop sys plc w pre reqs sp old_end rid first)))
     = idle_timeout_ms plc"
proof (induction reqs arbitrary: plc w pre sp old_end rid first)
  case Nil
  show ?case by simp
next
  case (Cons r rest)
  show ?case
    by (simp add: Let_def DISCONNECT_ON_ERROR_keeps Cons.IH split: prod.splits)
qed

lemma call_state_func_idle:
  "next_idle_timeout (fst (snd (call_state_func sys plc w))) = next_idle_timeout plc
   \<and> idle_timeout_ms (fst (snd (call_state_func sys plc w))) = idle_timeout_ms plc"
proof (cases "state_func plc")
  case S_build_tag_request
  then show ?thesis
    by (simp add: call_state_func_def state_build_tag_request_def build_tag_request_loop_idle)
qed (auto simp: call_state_func_def state_defs Let_def DISCONNECT_ON_ERROR_keeps
      split: prod.splits list.splits)

text \<open>
  C3 at its failing input. A connected PLC with an idle timeout of 5000 ms and an idle
  deadline of 0 has one request (id 7) queued; at time 1000 its response arrives and is
  processed: the layers and the callback of the request return ok and the request leaves
  the queue. The idle deadline is still 0, not 1000 + 5000, and the dispatcher, entered at
  the same time 1000, sends the PLC to \<^verbatim>\<open>state_start_disconnect\<close> as idle.
\<close>

theorem idle_deadline_never_renewed:
  "fst (state_tag_response_ready (test_sys 1000) answered_plc []) = PLCTAG_STATUS_PENDING
   \<and> request_list (fst (snd (state_tag_response_ready (test_sys 1000) answered_plc []))) = []
   \<and> snd (snd (state_tag_response_ready (test_sys 1000) answered_plc []))
     = [Socket_call ''status'', Layer_call ''process_response'' 0 14,
        Process_response 1 4 14 7]
   \<and> is_connected (fst (snd (state_tag_response_ready (test_sys 1000) answered_plc [])))
   \<and> idle_timeout_ms (fst (snd (state_tag_response_ready (test_sys 1000) answered_plc [])))
     = 5000
   \<and> next_idle_timeout (fst (snd (state_tag_response_ready (test_sys 1000) answered_plc [])))
     = 0
   \<and> state_func (fst (snd (state_dispatch_requests (test_sys 1000)
        (fst (snd (state_tag_response_ready (test_sys 1000) answered_plc [])))
        (snd (snd (state_tag_response_ready (test_sys 1000) answered_plc []))))))
     = S_start_disconnect"
  by (simp add: state_tag_response_ready_def state_dispatch_requests_def Let_def
      answered_plc_def test_plc_def test_sys_def test_layer_def test_request_def)

section \<open>A request that does not fit (C4)\<close>

text \<open>
  \<^verbatim>\<open>state_build_tag_request\<close> when the very first request of the queue returns too-small,
  for every PLC and all collaborators: the function is left through
  \<^verbatim>\<open>DISCONNECT_ON_ERROR\<close>, so the status is pending, the next state is
  \<^verbatim>\<open>state_start_disconnect\<close>, the retry interval is doubled, and the only collaborator
  called after the request is the clock: no layer is called and no write is issued.
\<close>

lemma state_build_tag_request_first_too_small:
  assumes "\<not> is_terminating plc"
    and "request_list plc = r # rest"
    and "build_request r (req_context r) w (data_capacity plc)
           \<lparr>sp_buf = data plc, sp_start = payload_start plc, sp_end = payload_end plc\<rparr>
           (current_request_id plc) = (PLCTAG_ERR_TOO_SMALL, w1, sp1)"
  shows "state_build_tag_request sys plc w
           = DISCONNECT_ON_ERROR sys (plc\<lparr>data := sp_buf sp1\<rparr>) w1"
    and "fst (state_build_tag_request sys plc w) = PLCTAG_STATUS_PENDING"
    and "state_func (fst (snd (state_build_tag_request sys plc w))) = S_start_disconnect"
    and "retry_interval_ms (fst (snd (state_build_tag_request sys plc w)))
           = min (wrap_int (2 * retry_interval_ms plc)) MAX_RETRY_INTERVAL_MS"
    and "payload_end (fst (snd (state_build_tag_request sys plc w))) = payload_end plc"
    and "request_list (fst (snd (state_build_tag_request sys plc w))) = request_list plc"
    and "snd (snd (state_build_tag_request sys plc w)) = snd (time_ms sys w1)"
proof -
  show eq: "state_build_tag_request sys plc w
      = DISCONNECT_ON_ERROR sys (plc\<lparr>data := sp_buf sp1\<rparr>) w1"
    using assms by (simp add: state_build_tag_request_def)
  show "fst (state_build_tag_request sys plc w) = PLCTAG_STATUS_PENDING"
    and "state_func (fst (snd (state_build_tag_request sys plc w))) = S_start_disconnect"
    and "payload_end (fst (snd (state_build_tag_request sys plc w))) = payload_end plc"
    and "request_list (fst (snd (state_build_tag_request sys plc w))) = request_list plc"
    and "snd (snd (state_build_tag_request sys plc w)) = snd (time_ms sys w1)"
    by (simp_all add: eq DISCONNECT_ON_ERROR_keeps)
  show "retry_interval_ms (fst (snd (state_build_tag_request sys plc w)))
      = min (wrap_int (2 * retry_interval_ms plc)) MAX_RETRY_INTERVAL_MS"
    by (simp add: eq DISCONNECT_ON_ERROR_retry_interval_wrap)
qed

text \<open>
  \<^verbatim>\<open>state_build_tag_request\<close> when the first request has been packed, \<^verbatim>\<open>build_layer\<close> has
  returned pending and the second request returns too-small, for every PLC and all
  collaborators. The engine records the request id on the request it has not packed, rolls
  \<^verbatim>\<open>data_end\<close> back to the end of the first request and calls \<^verbatim>\<open>build_layer\<close> on that
  frame. What follows depends on the status \<open>rc\<close> of that call alone: for ok, and for
  pending with nothing queued behind the second request, the frame is sent (last branch,
  or \<^verbatim>\<open>DISCONNECT_ON_ERROR\<close> when the write cannot be set up); for pending with a further
  request queued the loop goes on with that request (second branch), although the branch
  that has just been taken is commented \<^verbatim>\<open>signal that we are unable to continue\<close>.
\<close>

lemma state_build_tag_request_later_too_small:
  assumes "\<not> is_terminating plc"
    and "request_list plc = r1 # r2 # rest"
    and "build_request r1 (req_context r1) w (data_capacity plc)
           \<lparr>sp_buf = data plc, sp_start = payload_start plc, sp_end = payload_end plc\<rparr>
           (current_request_id plc) = (PLCTAG_STATUS_OK, w1, sp1)"
    and "layer_build_layer (top_layer plc) w1 (data_capacity plc) sp1 (current_request_id plc)
           = (PLCTAG_STATUS_PENDING, w2, sp2, rid2)"
    and "build_request r2 (req_context r2) w2 (data_capacity plc) sp2 rid2
           = (PLCTAG_ERR_TOO_SMALL, w3, sp3)"
    and "layer_build_layer (top_layer plc) w3 (data_capacity plc) (sp3\<lparr>sp_end := sp_end sp1\<rparr>) rid2
           = (rc, w4, sp4, rid3)"
    and "socket_callback_when_write_done sys (socket plc) (sp_buf sp4)
           (if rc = PLCTAG_STATUS_OK then sp_end sp4 else sp_end sp1) w4 = (rc3, w5)"
  shows "state_build_tag_request sys plc w =
     (if rc \<noteq> PLCTAG_STATUS_OK \<and> rc \<noteq> PLCTAG_STATUS_PENDING
      then DISCONNECT_ON_ERROR sys
             (plc\<lparr>request_list :=
                    r1\<lparr>req_id := current_request_id plc\<rparr> # r2\<lparr>req_id := rid2\<rparr> # rest,
                  data := sp_buf sp4\<rparr>)
             w4
      else if rc \<noteq> PLCTAG_STATUS_OK \<and> rest \<noteq> []
      then build_tag_request_loop sys
             (plc\<lparr>request_list :=
                    r1\<lparr>req_id := current_request_id plc\<rparr> # r2\<lparr>req_id := rid2\<rparr> # rest,
                  data := sp_buf sp4\<rparr>)
             w4 [r1\<lparr>req_id := current_request_id plc\<rparr>, r2\<lparr>req_id := rid2\<rparr>]
             rest sp4 (sp_end sp1) rid3 False
      else if rc3 \<noteq> PLCTAG_STATUS_OK
      then DISCONNECT_ON_ERROR sys
             (plc\<lparr>request_list :=
                    r1\<lparr>req_id := current_request_id plc\<rparr> # r2\<lparr>req_id := rid2\<rparr> # rest,
                  data := sp_buf sp4,
                  payload_end := if rc = PLCTAG_STATUS_OK then sp_end sp4 else sp_end sp1,
                  state_func := S_tag_request_sent\<rparr>)
             w5
      else (PLCTAG_STATUS_OK,
            plc\<lparr>request_list :=
                  r1\<lparr>req_id := current_request_id plc\<rparr> # r2\<lparr>req_id := rid2\<rparr> # rest,
                data := sp_buf sp4,
                payload_end := if rc = PLCTAG_STATUS_OK then sp_end sp4 else sp_end sp1,
                state_func := S_tag_request_sent\<rparr>,
            w5))"
  using assms
  by (simp add: state_build_tag_request_def Let_def split del: if_split cong: if_cong)

text \<open>
  C4 at its failing input. \<open>queued_plc\<close> has three requests queued and a layer that
  packs several requests into a frame; \<^verbatim>\<open>state_reserve_space_for_tag_request\<close> leaves it as
  \<open>packing_plc\<close>, with the payload area from 4 to 64. In \<^verbatim>\<open>state_build_tag_request\<close>
  the first request is packed into bytes 4 to 14. The second request returns too-small.
  The claim says that the engine now rolls back and sends; the code rolls \<^verbatim>\<open>data_end\<close>
  back to 14, but then calls \<^verbatim>\<open>build_request\<close> of the third request, packs it into bytes
  14 to 24 and only then issues the write, of 24 bytes. The request that was not packed
  has the request id 2 recorded and stays in the queue between the two that were sent.

  The other half of the claim holds at \<open>oversized_plc\<close>, where the request that returns
  too-small is the first: the engine backs off and goes to \<^verbatim>\<open>state_start_disconnect\<close>, and
  the only call after the request is the clock.
\<close>

theorem state_build_tag_request_goes_on_after_too_small:
  "state_reserve_space_for_tag_request (test_sys 1000) queued_plc []
     = (PLCTAG_STATUS_PENDING, packing_plc, [Layer_call ''reserve_space'' 0 0])
   \<and> fst (state_build_tag_request (test_sys 1000) packing_plc [Layer_call ''reserve_space'' 0 0])
     = PLCTAG_STATUS_OK
   \<and> snd (snd (state_build_tag_request (test_sys 1000) packing_plc
        [Layer_call ''reserve_space'' 0 0]))
     = [Layer_call ''reserve_space'' 0 0,
        Build_request 1 4 64 1, Layer_call ''build_layer'' 4 14,
        Build_request 2 14 60 2, Layer_call ''build_layer'' 14 14,
        Build_request 3 14 60 3, Layer_call ''build_layer'' 14 24,
        Write_done 24]
   \<and> state_func (fst (snd (state_build_tag_request (test_sys 1000) packing_plc
        [Layer_call ''reserve_space'' 0 0])))
     = S_tag_request_sent
   \<and> payload_end (fst (snd (state_build_tag_request (test_sys 1000) packing_plc
        [Layer_call ''reserve_space'' 0 0])))
     = 24
   \<and> map req_id (request_list (fst (snd (state_build_tag_request (test_sys 1000) packing_plc
        [Layer_call ''reserve_space'' 0 0]))))
     = [1, 2, 3]
   \<and> state_reserve_space_for_tag_request (test_sys 1000) oversized_plc []
     = (PLCTAG_STATUS_PENDING, oversized_packing_plc, [Layer_call ''reserve_space'' 0 0])
   \<and> fst (state_build_tag_request (test_sys 1000) oversized_packing_plc
        [Layer_call ''reserve_space'' 0 0])
     = PLCTAG_STATUS_PENDING
   \<and> snd (snd (state_build_tag_request (test_sys 1000) oversized_packing_plc
        [Layer_call ''reserve_space'' 0 0]))
     = [Layer_call ''reserve_space'' 0 0, Build_request 2 4 64 1, Clock]
   \<and> state_func (fst (snd (state_build_tag_request (test_sys 1000) oversized_packing_plc
        [Layer_call ''reserve_space'' 0 0])))
     = S_start_disconnect
   \<and> next_retry_time (fst (snd (state_build_tag_request (test_sys 1000) oversized_packing_plc
        [Layer_call ''reserve_space'' 0 0])))
     = 1000"
  by (simp add: state_reserve_space_for_tag_request_def state_build_tag_request_def Let_def
      DISCONNECT_ON_ERROR_def MAX_RETRY_INTERVAL_MS_def
      queued_plc_def packing_plc_def oversized_plc_def oversized_packing_plc_def
      packing_layer_def test_plc_def test_sys_def test_layer_def test_request_def)

section \<open>The retry interval (C5)\<close>

text \<open>
  C5 at its failing input: on the PLC as it is created (\<^verbatim>\<open>retry_interval_ms\<close> is 0; nothing
  but the two macros ever assigns the field), an error handled by \<^verbatim>\<open>DISCONNECT_ON_ERROR\<close>
  or by \<^verbatim>\<open>RESET_ON_ERROR\<close> leaves the retry interval at 0, below
  \<^verbatim>\<open>MIN_RETRY_INTERVAL_MS\<close>, and the next retry time is the time of the error itself.
\<close>

theorem retry_interval_floor_not_applied:
  "retry_interval_ms fresh_plc = 0
   \<and> retry_interval_ms (fst (snd (DISCONNECT_ON_ERROR (test_sys 1000) fresh_plc []))) = 0
   \<and> retry_interval_ms (fst (snd (RESET_ON_ERROR (test_sys 1000) fresh_plc []))) = 0
   \<and> retry_interval_ms (fst (snd (DISCONNECT_ON_ERROR (test_sys 1000) fresh_plc [])))
       < MIN_RETRY_INTERVAL_MS
   \<and> retry_interval_ms (fst (snd (RESET_ON_ERROR (test_sys 1000) fresh_plc [])))
       < MIN_RETRY_INTERVAL_MS
   \<and> next_retry_time (fst (snd (DISCONNECT_ON_ERROR (test_sys 1000) fresh_plc []))) = 1000
   \<and> next_retry_time (fst (snd (RESET_ON_ERROR (test_sys 1000) fresh_plc []))) = 1000"
  by (simp add: DISCONNECT_ON_ERROR_def RESET_ON_ERROR_def reset_plc_def Let_def
      MAX_RETRY_INTERVAL_MS_def MIN_RETRY_INTERVAL_MS_def fresh_plc_def test_plc_def
      test_sys_def test_layer_def)

section \<open>Starting a request (C6)\<close>

lemma plc_start_request_already_queued:
  "walker_finds request (request_list plc) \<Longrightarrow>
   plc_start_request fuel sys plc w request client build_cb process_cb
     = Some (PLCTAG_STATUS_OK, plc, w)"
  by (simp add: plc_start_request_def)

lemma walker_finds_iff: "walker_finds request rs \<longleftrightarrow> request \<in> req_addr ` set rs"
  by (induction rs) auto

lemma plc_start_request_appends:
  assumes "\<not> walker_finds request (request_list plc)"
    and "state_func plc \<noteq> S_dispatch_requests"
  shows "plc_start_request fuel sys plc w request client build_cb process_cb
     = Some (PLCTAG_STATUS_OK,
             plc\<lparr>request_list := request_list plc @
                   [\<lparr>req_addr = request, req_context = client, req_id = - 1,
                     build_request = build_cb, process_response = process_cb\<rparr>]\<rparr>,
             w)"
  using assms by (simp add: plc_start_request_def Let_def)

text \<open>
  C6 at its failing input: the queue holds the request at address 1 and
  \<^verbatim>\<open>plc_start_request\<close> is called with that request again. The queue is unchanged, as the
  claim says, but the status returned is \<^verbatim>\<open>PLCTAG_STATUS_OK\<close>, not the busy error: the
  critical block sets \<^verbatim>\<open>rc = PLCTAG_ERR_BUSY\<close> and the function ends with
  \<^verbatim>\<open>return PLCTAG_STATUS_OK;\<close>.
\<close>

theorem plc_start_request_busy_returns_ok:
  "map req_addr (request_list busy_plc) = [1]
   \<and> plc_start_request 10 (test_sys 1000) busy_plc [] 1 ()
        (build_request (test_request 1 7 PLCTAG_STATUS_OK 10 PLCTAG_STATUS_OK))
        (process_response (test_request 1 7 PLCTAG_STATUS_OK 10 PLCTAG_STATUS_OK))
       = Some (PLCTAG_STATUS_OK, busy_plc, [])
   \<and> PLCTAG_STATUS_OK \<noteq> PLCTAG_ERR_BUSY"
  by (simp add: plc_start_request_def busy_plc_def test_plc_def test_request_def)

subsection \<open>The queue while the state runner runs\<close>

text \<open>
  Only \<^verbatim>\<open>state_tag_response_ready\<close> takes a request out of the queue, and no state function
  puts one in; \<^verbatim>\<open>state_build_tag_request\<close> writes request ids only.
\<close>

lemma build_tag_request_loop_addrs:
  assumes "request_list plc = pre @ reqs"
  shows "map req_addr (request_list
           (fst (snd (build_tag_request_loop sys plc w pre reqs sp old_end rid first))))
         = map req_addr (pre @ reqs)"
  using assms
proof (induction reqs arbitrary: plc w pre sp old_end rid first)
  case Nil
  then show ?case by (simp add: CHECK_TERMINATION_def)
next
  case (Cons r rest)
  obtain rc w1 sp1 where
    b: "build_request r (req_context r) w (data_capacity plc) sp rid = (rc, w1, sp1)"
    using prod_cases3 by blast
  let ?sp2 = "if rc = PLCTAG_ERR_TOO_SMALL then sp1\<lparr>sp_end := old_end\<rparr> else sp1"
  obtain rc2 w2 sp3 rid2 where
    l: "layer_build_layer (top_layer plc) w1 (data_capacity plc) ?sp2 rid = (rc2, w2, sp3, rid2)"
    using prod_cases4 by blast
  have rec: "\<And>plc' w' sp' old' rid' first'.
      request_list plc' = (pre @ [r\<lparr>req_id := rid\<rparr>]) @ rest \<Longrightarrow>
      map req_addr (request_list (fst (snd (build_tag_request_loop sys plc' w'
          (pre @ [r\<lparr>req_id := rid\<rparr>]) rest sp' old' rid' first'))))
        = map req_addr pre @ req_addr r # map req_addr rest"
    using Cons.IH by fastforce
  have same: "\<And>plc'. request_list plc' = request_list plc \<Longrightarrow>
      map req_addr (request_list plc') = map req_addr pre @ req_addr r # map req_addr rest"
    using Cons.prems by simp
  have renamed: "\<And>plc'. request_list plc' = pre @ r\<lparr>req_id := rid\<rparr> # rest \<Longrightarrow>
      map req_addr (request_list plc') = map req_addr pre @ req_addr r # map req_addr rest"
    by simp
  show ?case
    apply (simp add: b l Let_def split del: if_split cong: if_cong)
    apply (split if_split, intro conjI impI)
     apply (rule same; simp add: CHECK_TERMINATION_def)
    apply (split if_split, intro conjI impI)
     apply (rule same; simp add: DISCONNECT_ON_ERROR_keeps)
    apply (split if_split, intro conjI impI)
     apply (rule same; simp add: DISCONNECT_ON_ERROR_keeps)
    apply (split if_split, intro conjI impI)
     apply (rule renamed; simp add: DISCONNECT_ON_ERROR_keeps)
    apply (split if_split, intro conjI impI)
     apply (rule rec; simp)
    apply (rule renamed; simp add: split_beta DISCONNECT_ON_ERROR_keeps)
    done
qed

lemma RESET_ON_ERROR_request_list [simp]:
  "request_list (fst (snd (RESET_ON_ERROR sys plc w))) = request_list plc"
  by (auto simp: RESET_ON_ERROR_def reset_plc_def Let_def split: prod.splits)

lemma call_state_func_addrs:
  assumes "state_func plc \<noteq> S_tag_response_ready"
  shows "map req_addr (request_list (fst (snd (call_state_func sys plc w))))
         = map req_addr (request_list plc)"
proof (cases "state_func plc")
  case S_build_tag_request
  then show ?thesis
    using build_tag_request_loop_addrs [of plc "[]" "request_list plc"]
    by (simp add: call_state_func_def state_build_tag_request_def)
next
  case S_tag_response_ready
  then show ?thesis using assms by simp
qed (simp_all add: call_state_func_def state_defs Let_def split_beta DISCONNECT_ON_ERROR_keeps
      CHECK_TERMINATION_def CONTINUE_UNLESS_def)

lemma DISCONNECT_ON_ERROR_in_run: "stays_in_run (DISCONNECT_ON_ERROR sys plc w)"
  by (simp add: stays_in_run_def DISCONNECT_ON_ERROR_keeps dispatch_run_states_def)

lemma stays_in_run_simps [simp]:
  "stays_in_run (PLCTAG_STATUS_OK, plc, w)"
  "stays_in_run (PLCTAG_STATUS_PENDING, plc, w) \<longleftrightarrow> state_func plc \<in> dispatch_run_states"
  "stays_in_run (CHECK_TERMINATION plc w)"
  "stays_in_run (CONTINUE_UNLESS plc w)"
  "stays_in_run (RESET_ON_ERROR sys plc w)"
  by (simp_all add: stays_in_run_def CHECK_TERMINATION_def CONTINUE_UNLESS_def
      RESET_ON_ERROR_def dispatch_run_states_def Let_def split_beta)

lemma build_tag_request_loop_in_run:
  "stays_in_run (build_tag_request_loop sys plc w pre reqs sp old_end rid first)"
proof (induction reqs arbitrary: plc w pre sp old_end rid first)
  case Nil
  show ?case by (simp add: dispatch_run_states_def)
next
  case (Cons r rest)
  obtain rc w1 sp1 where
    b: "build_request r (req_context r) w (data_capacity plc) sp rid = (rc, w1, sp1)"
    using prod_cases3 by blast
  let ?sp2 = "if rc = PLCTAG_ERR_TOO_SMALL then sp1\<lparr>sp_end := old_end\<rparr> else sp1"
  obtain rc2 w2 sp3 rid2 where
    l: "layer_build_layer (top_layer plc) w1 (data_capacity plc) ?sp2 rid = (rc2, w2, sp3, rid2)"
    using prod_cases4 by blast
  show ?case
    apply (simp add: b l Let_def split del: if_split cong: if_cong)
    apply (split if_split, intro conjI impI)
     apply simp
    apply (split if_split, intro conjI impI)
     apply (rule DISCONNECT_ON_ERROR_in_run)
    apply (split if_split, intro conjI impI)
     apply (rule DISCONNECT_ON_ERROR_in_run)
    apply (split if_split, intro conjI impI)
     apply (rule DISCONNECT_ON_ERROR_in_run)
    apply (split if_split, intro conjI impI)
     apply (rule Cons.IH)
    apply (simp add: split_beta DISCONNECT_ON_ERROR_in_run)
    done
qed

lemma call_state_func_in_run:
  assumes "state_func plc \<in> dispatch_run_states"
  shows "stays_in_run (call_state_func sys plc w)"
proof -
  consider "state_func plc = S_dispatch_requests" | "state_func plc = S_start_disconnect"
    | "state_func plc = S_build_layer_disconnect_request" | "state_func plc = S_start_connect"
    | "state_func plc = S_reserve_space_for_tag_request" | "state_func plc = S_build_tag_request"
    using assms(1) by (auto simp: dispatch_run_states_def)
  then show ?thesis
  proof cases
    case 6
    then show ?thesis
      by (simp add: call_state_func_def state_build_tag_request_def build_tag_request_loop_in_run)
  qed (simp_all add: call_state_func_def state_defs DISCONNECT_ON_ERROR_in_run
        dispatch_run_states_def Let_def split_beta)
qed

lemma plc_state_runner_addrs:
  assumes "state_func plc \<in> dispatch_run_states"
    and "plc_state_runner fuel sys plc w = Some (plc', w')"
  shows "map req_addr (request_list plc') = map req_addr (request_list plc)"
  using assms
proof (induction fuel arbitrary: plc w)
  case 0
  then show ?case by simp
next
  case (Suc fuel)
  let ?r = "call_state_func sys plc w"
  have here: "state_func plc \<noteq> S_tag_response_ready"
    using Suc.prems(1) by (auto simp: dispatch_run_states_def)
  have step: "map req_addr (request_list (fst (snd ?r))) = map req_addr (request_list plc)"
    by (rule call_state_func_addrs [OF here])
  show ?case
  proof (cases "fst ?r = PLCTAG_STATUS_PENDING")
    case True
    have "plc_state_runner fuel sys (fst (snd ?r)) (snd (snd ?r)) = Some (plc', w')"
      using Suc.prems(2) True by (simp add: split_beta)
    moreover have "state_func (fst (snd ?r)) \<in> dispatch_run_states"
      using call_state_func_in_run [OF Suc.prems(1), of sys w] True
      by (simp add: stays_in_run_def)
    ultimately have "map req_addr (request_list plc') = map req_addr (request_list (fst (snd ?r)))"
      using Suc.IH by blast
    then show ?thesis using step by simp
  next
    case False
    then have "plc' = fst (snd ?r)"
      using Suc.prems(2) by (simp add: split_beta)
    then show ?thesis using step by simp
  qed
qed

text \<open>
  What the claim C6 has right (the property P3): when the request is not in the queue,
  \<^verbatim>\<open>plc_start_request\<close>, if the state runner it may start comes to rest, returns ok, and
  the queue afterwards is the old queue followed by the request; so the request is in the
  queue exactly once.
\<close>

lemma plc_start_request_not_queued:
  assumes "\<not> walker_finds request (request_list plc)"
    and "plc_start_request fuel sys plc w request client build_cb process_cb = Some (rc, plc', w')"
  shows "rc = PLCTAG_STATUS_OK"
    and "map req_addr (request_list plc') = map req_addr (request_list plc) @ [request]"
    and "count_list (map req_addr (request_list plc')) request = 1"
proof -
  let ?linked = "\<lparr>req_addr = request, req_context = client, req_id = - 1,
                  build_request = build_cb, process_response = process_cb\<rparr>"
  let ?plc1 = "plc\<lparr>request_list := request_list plc @ [?linked]\<rparr>"
  show "rc = PLCTAG_STATUS_OK"
    using assms by (auto simp: plc_start_request_def Let_def split: if_splits option.splits)
  show addrs: "map req_addr (request_list plc') = map req_addr (request_list plc) @ [request]"
  proof (cases "state_func plc = S_dispatch_requests")
    case True
    then have "plc_state_runner fuel sys ?plc1 w = Some (plc', w')"
      using assms by (auto simp: plc_start_request_def Let_def split: option.splits)
    moreover have "state_func ?plc1 \<in> dispatch_run_states"
      using True by (simp add: dispatch_run_states_def)
    ultimately have "map req_addr (request_list plc') = map req_addr (request_list ?plc1)"
      by (rule plc_state_runner_addrs [rotated])
    then show ?thesis by simp
  next
    case False
    then have "plc' = ?plc1"
      using assms by (simp add: plc_start_request_def Let_def)
    then show ?thesis by simp
  qed
  have "request \<notin> set (map req_addr (request_list plc))"
    using assms(1) by (simp add: walker_finds_iff)
  then show "count_list (map req_addr (request_list plc')) request = 1"
    by (simp add: addrs count_list_0_iff)
qed

section \<open>The dispatcher (C7)\<close>

text \<open>
  C7, as the claim states it, fails: a PLC that is not terminating and not connected, with a
  request queued, whose retry time (5000) is still ahead of the clock (1000) is not sent to
  \<^verbatim>\<open>state_start_connect\<close>; the dispatcher yields and the state is still
  \<^verbatim>\<open>state_dispatch_requests\<close>.
\<close>

theorem state_dispatch_requests_retry_gate_counterexample:
  "\<not> is_terminating waiting_plc
   \<and> \<not> is_connected waiting_plc
   \<and> map req_addr (request_list waiting_plc) = [1]
   \<and> next_retry_time waiting_plc = 5000
   \<and> fst (state_dispatch_requests (test_sys 1000) waiting_plc []) = PLCTAG_STATUS_OK
   \<and> state_func (fst (snd (state_dispatch_requests (test_sys 1000) waiting_plc [])))
       = S_dispatch_requests"
  by (simp add: state_dispatch_requests_def waiting_plc_def test_plc_def test_sys_def
      test_request_def)

text \<open>
  C7, amended. Let \<open>now\<close> be the clock at the entry of the dispatcher and \<open>now2\<close> the
  clock at its second reading. From \<^verbatim>\<open>state_dispatch_requests\<close> the next state is: if
  terminating and connected, \<^verbatim>\<open>state_start_disconnect\<close>; if terminating and not connected,
  \<^verbatim>\<open>state_terminate\<close> (and the engine yields); if connected and the idle deadline has passed
  (\<^verbatim>\<open>next_idle_timeout < now\<close>), \<^verbatim>\<open>state_start_disconnect\<close>; otherwise, if the retry time
  is still ahead (\<^verbatim>\<open>next_retry_time > now2\<close>), the engine stays in the dispatcher and
  yields, whatever the queue holds; otherwise, when the queue is non-empty,
  \<^verbatim>\<open>state_start_connect\<close> if not connected and \<^verbatim>\<open>state_reserve_space_for_tag_request\<close> if
  connected; with nothing to do the engine stays in the dispatcher and yields. Yielding is
  the status ok, going on at once the status pending.
\<close>

theorem state_dispatch_requests_next_state:
  assumes "event_loop_time sys w = (now, w1)"
    and "event_loop_time sys w1 = (now2, w2)"
    and "state_func plc = S_dispatch_requests"
  shows
    "(is_terminating plc \<and> is_connected plc \<longrightarrow>
        state_func (fst (snd (state_dispatch_requests sys plc w))) = S_start_disconnect
        \<and> fst (state_dispatch_requests sys plc w) = PLCTAG_STATUS_PENDING)
     \<and> (is_terminating plc \<and> \<not> is_connected plc \<longrightarrow>
        state_func (fst (snd (state_dispatch_requests sys plc w))) = S_terminate
        \<and> fst (state_dispatch_requests sys plc w) = PLCTAG_STATUS_OK)
     \<and> (\<not> is_terminating plc \<and> is_connected plc \<and> next_idle_timeout plc < now \<longrightarrow>
        state_func (fst (snd (state_dispatch_requests sys plc w))) = S_start_disconnect
        \<and> fst (state_dispatch_requests sys plc w) = PLCTAG_STATUS_PENDING)
     \<and> (\<not> is_terminating plc \<and> \<not> (is_connected plc \<and> next_idle_timeout plc < now)
        \<and> next_retry_time plc > now2 \<longrightarrow>
        state_func (fst (snd (state_dispatch_requests sys plc w))) = S_dispatch_requests
        \<and> fst (state_dispatch_requests sys plc w) = PLCTAG_STATUS_OK)
     \<and> (\<not> is_terminating plc \<and> \<not> (is_connected plc \<and> next_idle_timeout plc < now)
        \<and> \<not> next_retry_time plc > now2 \<and> request_list plc \<noteq> [] \<and> \<not> is_connected plc \<longrightarrow>
        state_func (fst (snd (state_dispatch_requests sys plc w))) = S_start_connect
        \<and> fst (state_dispatch_requests sys plc w) = PLCTAG_STATUS_PENDING)
     \<and> (\<not> is_terminating plc \<and> \<not> (is_connected plc \<and> next_idle_timeout plc < now)
        \<and> \<not> next_retry_time plc > now2 \<and> request_list plc \<noteq> [] \<and> is_connected plc \<longrightarrow>
        state_func (fst (snd (state_dispatch_requests sys plc w)))
          = S_reserve_space_for_tag_request
        \<and> fst (state_dispatch_requests sys plc w) = PLCTAG_STATUS_PENDING)
     \<and> (\<not> is_terminating plc \<and> \<not> (is_connected plc \<and> next_idle_timeout plc < now)
        \<and> \<not> next_retry_time plc > now2 \<and> request_list plc = [] \<longrightarrow>
        state_func (fst (snd (state_dispatch_requests sys plc w))) = S_dispatch_requests
        \<and> fst (state_dispatch_requests sys plc w) = PLCTAG_STATUS_OK)"
  using assms by (simp add: state_dispatch_requests_def)

text \<open>
  One PLC for each of the seven rows, at clock 1000: terminating and connected;
  terminating and not connected; idle since 0; backing off until 5000 with a request
  queued; a request queued and not connected; a request queued and connected; nothing
  to do.
\<close>

theorem state_dispatch_requests_next_state_witness:
  "state_func (fst (snd (state_dispatch_requests (test_sys 1000)
      (registered_plc\<lparr>is_terminating := True\<rparr>) []))) = S_start_disconnect
   \<and> state_func (fst (snd (state_dispatch_requests (test_sys 1000)
      (registered_plc\<lparr>is_terminating := True, is_connected := False\<rparr>) []))) = S_terminate
   \<and> state_func (fst (snd (state_dispatch_requests (test_sys 1000) registered_plc [])))
       = S_start_disconnect
   \<and> state_func (fst (snd (state_dispatch_requests (test_sys 1000) waiting_plc [])))
       = S_dispatch_requests
   \<and> state_func (fst (snd (state_dispatch_requests (test_sys 1000)
      (waiting_plc\<lparr>next_retry_time := 0\<rparr>) []))) = S_start_connect
   \<and> state_func (fst (snd (state_dispatch_requests (test_sys 1000)
      (waiting_plc\<lparr>next_retry_time := 0, is_connected := True, next_idle_timeout := 6000\<rparr>)
      []))) = S_reserve_space_for_tag_request
   \<and> state_func (fst (snd (state_dispatch_requests (test_sys 1000)
      (registered_plc\<lparr>next_idle_timeout := 6000\<rparr>) []))) = S_dispatch_requests
   \<and> fst (state_dispatch_requests (test_sys 1000)
      (registered_plc\<lparr>next_idle_timeout := 6000\<rparr>) []) = PLCTAG_STATUS_OK"
proof -
  have t1: "event_loop_time (test_sys 1000) [] = (1000, [Clock])"
    and t2: "event_loop_time (test_sys 1000) [Clock] = (1000, [Clock, Clock])"
    by (simp_all add: test_sys_def)
  note row = state_dispatch_requests_next_state [OF t1 t2]
  show ?thesis
    using row [of "registered_plc\<lparr>is_terminating := True\<rparr>"]
      row [of "registered_plc\<lparr>is_terminating := True, is_connected := False\<rparr>"]
      row [of registered_plc]
      row [of waiting_plc]
      row [of "waiting_plc\<lparr>next_retry_time := 0\<rparr>"]
      row [of "waiting_plc\<lparr>next_retry_time := 0, is_connected := True, next_idle_timeout := 6000\<rparr>"]
      row [of "registered_plc\<lparr>next_idle_timeout := 6000\<rparr>"]
    by (simp add: registered_plc_def waiting_plc_def test_plc_def)
qed

section \<open>The payload markers (C8)\<close>

subsection \<open>What a callback that keeps the offsets returns\<close>

lemma keeps_offsets_in_buffer:
  assumes "keeps_offsets cap sp sp'" and "offsets_in_buffer cap sp"
  shows "0 \<le> sp_start sp'" and "sp_start sp' \<le> cap" and "0 \<le> sp_end sp'" and "sp_end sp' \<le> cap"
  using assms by (simp_all add: keeps_offsets_def offsets_in_buffer_def)

lemma keeps_offsets_order:
  assumes "keeps_offsets cap sp sp'" and "offsets_in_buffer cap sp" and "sp_start sp \<le> sp_end sp"
  shows "sp_start sp' \<le> sp_end sp'"
  using assms by (simp add: keeps_offsets_def)

lemma layer_keeps_functions:
  assumes "layer_keeps cap layer"
  shows "keeps_offsets cap sp (snd (snd (layer_connect layer w cap sp)))"
    and "keeps_offsets cap sp (snd (snd (layer_disconnect layer w cap sp)))"
    and "keeps_offsets cap sp (fst (snd (snd (layer_reserve_space layer w cap sp r))))"
    and "keeps_offsets cap sp (fst (snd (snd (layer_build_layer layer w cap sp r))))"
    and "keeps_offsets cap sp (fst (snd (snd (layer_process_response layer w cap sp r))))"
  using assms by (simp_all add: layer_keeps_def)

lemma request_keeps_build:
  assumes "request_keeps cap request"
  shows "keeps_offsets cap sp (snd (snd (build_request request c w cap sp r)))"
  using assms by (simp add: request_keeps_def)

lemma payload_in_buffer_capacity:
  assumes "payload_in_buffer plc"
  shows "0 \<le> data_capacity plc"
  using assms by (simp add: payload_in_buffer_def buffer_inv_def)

subsection \<open>Callbacks that keep the offsets\<close>

text \<open>
  A request whose callbacks leave the offsets as they are keeps them and stays at or
  after every start, whatever statuses it returns; so does a layer whose functions leave
  the offsets as they are.
\<close>

lemma request_unchanged_keeps:
  assumes "\<And>c w cap sp r. snd (snd (build_request request c w cap sp r)) = sp"
    and "\<And>c w cap sp r. snd (snd (process_response request c w cap sp r)) = sp"
  shows "request_keeps cap request" and "request_stays_from lo cap request"
  using assms
  by (simp_all add: request_keeps_def request_stays_from_def keeps_offsets_def offsets_from_def)

lemma layer_unchanged_keeps:
  assumes "\<And>w cap sp. snd (snd (layer_connect layer w cap sp)) = sp"
    and "\<And>w cap sp. snd (snd (layer_disconnect layer w cap sp)) = sp"
    and "\<And>w cap sp r. fst (snd (snd (layer_reserve_space layer w cap sp r))) = sp"
    and "\<And>w cap sp r. fst (snd (snd (layer_build_layer layer w cap sp r))) = sp"
    and "\<And>w cap sp r. fst (snd (snd (layer_process_response layer w cap sp r))) = sp"
  shows "layer_keeps cap layer" and "layer_stays_from lo cap layer"
  using assms
  by (simp_all add: layer_keeps_def layer_stays_from_def keeps_offsets_def offsets_from_def)

text \<open>
  \<open>bounded_request\<close>, which builds only what fits into the space it is handed, keeps
  the offsets for every capacity and stays at or after every start. \<open>test_request\<close>
  keeps them when its \<^verbatim>\<open>build_request\<close> returns an error (it then leaves the offsets as
  they are); when it returns ok it sets the end without looking at the space it is handed,
  and does not keep the offsets: handed bytes 60 to 64 of a buffer of 64 bytes, a request
  of 10 bytes leaves the end at 70.
\<close>

lemma bounded_request_keeps:
  assumes "0 \<le> len"
  shows "request_keeps cap (bounded_request a len)"
    and "request_stays_from lo cap (bounded_request a len)"
  using assms
  by (auto simp: request_keeps_def request_stays_from_def keeps_offsets_def
      offsets_in_buffer_def offsets_from_def bounded_request_def)

lemma test_request_keeps:
  assumes "build_rc \<noteq> PLCTAG_STATUS_OK"
  shows "request_keeps cap (test_request a i build_rc len process_rc)"
  using assms by (simp add: request_keeps_def keeps_offsets_def test_request_def)

lemma test_request_builds_beyond_end:
  "\<not> request_keeps 64 (test_request a i PLCTAG_STATUS_OK 10 process_rc)"
proof
  assume "request_keeps 64 (test_request a i PLCTAG_STATUS_OK 10 process_rc)"
  then have "keeps_offsets 64 \<lparr>sp_buf = None, sp_start = 60, sp_end = 64\<rparr>
      (snd (snd (build_request (test_request a i PLCTAG_STATUS_OK 10 process_rc) () [] 64
         \<lparr>sp_buf = None, sp_start = 60, sp_end = 64\<rparr> 0)))"
    unfolding request_keeps_def by blast
  then show False
    by (simp add: keeps_offsets_def offsets_in_buffer_def test_request_def)
qed

subsection \<open>The state functions, one by one\<close>

text \<open>The states that call no layer, or that store no offset a layer returns.\<close>

lemma payload_in_buffer_plain_states:
  assumes "payload_in_buffer plc"
  shows "payload_in_buffer (fst (snd (state_dispatch_requests sys plc w)))"
    and "payload_in_buffer (fst (snd (state_tag_request_sent sys plc w)))"
    and "payload_in_buffer (fst (snd (state_tag_response_ready sys plc w)))"
    and "payload_in_buffer (fst (snd (state_start_connect sys plc w)))"
    and "payload_in_buffer (fst (snd (state_layer_connect_request_sent sys plc w)))"
    and "payload_in_buffer (fst (snd (state_layer_connect_response_ready sys plc w)))"
    and "payload_in_buffer (fst (snd (state_start_disconnect sys plc w)))"
    and "payload_in_buffer (fst (snd (state_layer_disconnect_request_sent sys plc w)))"
    and "payload_in_buffer (fst (snd (state_layer_disconnect_response_ready sys plc w)))"
    and "payload_in_buffer (fst (snd (state_terminate sys plc w)))"
  using assms payload_in_buffer_capacity [OF assms]
  by (simp_all add: state_defs Let_def split_beta payload_in_buffer_def buffer_inv_def
      split: list.splits)


text \<open>
  The states that store what a layer returns. Each hands the layer offsets in the buffer,
  in order: 0 and 0, or 0 and the capacity, or what the layer has just returned.
\<close>

lemma payload_in_buffer_reserve_space:
  assumes "payload_in_buffer plc" and "layer_keeps (data_capacity plc) (top_layer plc)"
  shows "payload_in_buffer (fst (snd (state_reserve_space_for_tag_request sys plc w)))"
proof -
  let ?cap = "data_capacity plc"
  let ?sp0 = "\<lparr>sp_buf = data plc, sp_start = 0, sp_end = 0\<rparr>"
  obtain rc w1 sp rid where
    r: "layer_reserve_space (top_layer plc) w ?cap ?sp0 0 = (rc, w1, sp, rid)"
    using prod_cases4 by blast
  have in0: "offsets_in_buffer ?cap ?sp0"
    using payload_in_buffer_capacity [OF assms(1)] by (simp add: offsets_in_buffer_def)
  have k: "keeps_offsets ?cap ?sp0 sp"
    using layer_keeps_functions(3) [OF assms(2), of ?sp0 w 0] r by simp
  have "0 \<le> sp_start sp" "sp_start sp \<le> sp_end sp" "sp_end sp \<le> ?cap"
    using keeps_offsets_in_buffer [OF k in0] keeps_offsets_order [OF k in0] by simp_all
  then show ?thesis
    using assms(1)
    by (simp add: state_reserve_space_for_tag_request_def r Let_def payload_in_buffer_def
        buffer_inv_def)
qed

lemma payload_in_buffer_connect:
  assumes "payload_in_buffer plc" and "layer_keeps (data_capacity plc) (top_layer plc)"
  shows "payload_in_buffer (fst (snd (state_build_layer_connect_request sys plc w)))"
proof -
  let ?cap = "data_capacity plc"
  let ?sp0 = "\<lparr>sp_buf = data plc, sp_start = 0, sp_end = 0\<rparr>"
  obtain rc0 w1 where s: "socket_status sys (socket plc) w = (rc0, w1)"
    by (cases "socket_status sys (socket plc) w")
  obtain rc w2 sp where c: "layer_connect (top_layer plc) w1 ?cap ?sp0 = (rc, w2, sp)"
    using prod_cases3 by blast
  let ?sp1 = "\<lparr>sp_buf = sp_buf sp, sp_start = sp_start sp, sp_end = sp_end sp\<rparr>"
  obtain rc2 w3 sp2 rid where
    b: "layer_build_layer (top_layer plc) w2 ?cap ?sp1 (current_request_id plc) = (rc2, w3, sp2, rid)"
    using prod_cases4 by blast
  have in0: "offsets_in_buffer ?cap ?sp0"
    using payload_in_buffer_capacity [OF assms(1)] by (simp add: offsets_in_buffer_def)
  have k: "keeps_offsets ?cap ?sp0 sp"
    using layer_keeps_functions(1) [OF assms(2), of ?sp0 w1] c by simp
  have sp: "0 \<le> sp_start sp" "sp_start sp \<le> sp_end sp" "sp_end sp \<le> ?cap"
    using keeps_offsets_in_buffer [OF k in0] keeps_offsets_order [OF k in0] by simp_all
  have in1: "offsets_in_buffer ?cap ?sp1"
    using sp by (simp add: offsets_in_buffer_def)
  have k2: "keeps_offsets ?cap ?sp1 sp2"
    using layer_keeps_functions(4) [OF assms(2), of ?sp1 w2 "current_request_id plc"] b by simp
  have sp2: "0 \<le> sp_start sp2" "sp_start sp2 \<le> sp_end sp2" "sp_end sp2 \<le> ?cap"
    using keeps_offsets_in_buffer [OF k2 in1] keeps_offsets_order [OF k2 in1] sp by simp_all
  show ?thesis
    using assms(1) sp sp2
    by (simp add: state_build_layer_connect_request_def s c b Let_def split_beta
        payload_in_buffer_def buffer_inv_def)
qed

lemma payload_in_buffer_disconnect:
  assumes "payload_in_buffer plc" and "layer_keeps (data_capacity plc) (top_layer plc)"
  shows "payload_in_buffer (fst (snd (state_build_layer_disconnect_request sys plc w)))"
proof -
  let ?cap = "data_capacity plc"
  let ?sp0 = "\<lparr>sp_buf = data plc, sp_start = 0, sp_end = ?cap\<rparr>"
  obtain rc w1 sp where d: "layer_disconnect (top_layer plc) w ?cap ?sp0 = (rc, w1, sp)"
    using prod_cases3 by blast
  obtain rc2 w2 sp2 rid where
    b: "layer_build_layer (top_layer plc) w1 ?cap sp 0 = (rc2, w2, sp2, rid)"
    using prod_cases4 by blast
  have in0: "offsets_in_buffer ?cap ?sp0"
    using payload_in_buffer_capacity [OF assms(1)] by (simp add: offsets_in_buffer_def)
  have k: "keeps_offsets ?cap ?sp0 sp"
    using layer_keeps_functions(2) [OF assms(2), of ?sp0 w] d by simp
  have in1: "offsets_in_buffer ?cap sp"
    using keeps_offsets_in_buffer [OF k in0] by (simp add: offsets_in_buffer_def)
  have k2: "keeps_offsets ?cap sp sp2"
    using layer_keeps_functions(4) [OF assms(2), of sp w1 0] b by simp
  have "0 \<le> sp_end sp2" "sp_end sp2 \<le> ?cap"
    using keeps_offsets_in_buffer [OF k2 in1] by simp_all
  then show ?thesis
    using assms(1)
    by (simp add: state_build_layer_disconnect_request_def d b Let_def split_beta
        payload_in_buffer_def buffer_inv_def)
qed

text \<open>
  The loop of \<^verbatim>\<open>state_build_tag_request\<close>: \<^verbatim>\<open>payload_start\<close> is never written, and the
  value written to \<^verbatim>\<open>payload_end\<close> is an end offset that \<^verbatim>\<open>build_layer\<close> or an earlier
  \<^verbatim>\<open>build_request\<close> returned, or the \<^verbatim>\<open>payload_end\<close> at the entry. Every span handed
  to a callback has both offsets in the buffer and an end that is not before
  \<^verbatim>\<open>payload_start\<close>; after a too-small request its start can be after its end.
\<close>

lemma build_tag_request_loop_payload_in_buffer:
  assumes "payload_in_buffer plc"
    and "offsets_in_buffer (data_capacity plc) sp" and "offsets_from (payload_start plc) sp"
    and "payload_start plc \<le> old_end" and "old_end \<le> data_capacity plc"
    and "layer_keeps (data_capacity plc) (top_layer plc)"
    and "layer_stays_from (payload_start plc) (data_capacity plc) (top_layer plc)"
    and "\<forall>r \<in> set reqs. request_keeps (data_capacity plc) r
           \<and> request_stays_from (payload_start plc) (data_capacity plc) r"
  shows "payload_in_buffer
           (fst (snd (build_tag_request_loop sys plc w pre reqs sp old_end rid first)))"
  using assms
proof (induction reqs arbitrary: plc w pre sp old_end rid first)
  case Nil
  then show ?case by (simp add: payload_in_buffer_def buffer_inv_def)
next
  case (Cons r rest)
  let ?cap = "data_capacity plc"
  let ?lo = "payload_start plc"
  obtain rc w1 sp1 where b: "build_request r (req_context r) w ?cap sp rid = (rc, w1, sp1)"
    using prod_cases3 by blast
  let ?sp2 = "if rc = PLCTAG_ERR_TOO_SMALL then sp1\<lparr>sp_end := old_end\<rparr> else sp1"
  let ?old2 = "if rc = PLCTAG_ERR_TOO_SMALL then old_end else sp_end sp1"
  obtain rc2 w2 sp3 rid2 where
    l: "layer_build_layer (top_layer plc) w1 ?cap ?sp2 rid = (rc2, w2, sp3, rid2)"
    using prod_cases4 by blast
  have r: "request_keeps ?cap r" "request_stays_from ?lo ?cap r"
    using Cons.prems(8) by simp_all
  have lo: "0 \<le> ?lo"
    using Cons.prems(1) by (simp add: payload_in_buffer_def)
  have k1: "keeps_offsets ?cap sp sp1"
    using request_keeps_build [OF r(1), of sp "req_context r" w rid] b by simp
  have in1: "offsets_in_buffer ?cap sp1"
    using keeps_offsets_in_buffer [OF k1 Cons.prems(2)] by (simp add: offsets_in_buffer_def)
  have "offsets_in_buffer ?cap sp \<and> offsets_from ?lo sp \<longrightarrow>
      (fst (build_request r (req_context r) w ?cap sp rid) = PLCTAG_STATUS_OK \<longrightarrow>
         offsets_from ?lo (snd (snd (build_request r (req_context r) w ?cap sp rid))))
      \<and> (fst (build_request r (req_context r) w ?cap sp rid) = PLCTAG_ERR_TOO_SMALL \<longrightarrow>
         ?lo \<le> sp_start (snd (snd (build_request r (req_context r) w ?cap sp rid))))"
    using r(2) unfolding request_stays_from_def by blast
  then have from1: "rc = PLCTAG_STATUS_OK \<Longrightarrow> offsets_from ?lo sp1"
    and start1: "rc = PLCTAG_ERR_TOO_SMALL \<Longrightarrow> ?lo \<le> sp_start sp1"
    using Cons.prems(2,3) b by simp_all
  have in2: "offsets_in_buffer ?cap ?sp2"
    using in1 lo Cons.prems(4,5) by (simp add: offsets_in_buffer_def)
  have from2: "rc = PLCTAG_STATUS_OK \<or> rc = PLCTAG_ERR_TOO_SMALL \<Longrightarrow> offsets_from ?lo ?sp2"
    using from1 start1 Cons.prems(4) by (auto simp: offsets_from_def)
  have old2_hi: "?old2 \<le> ?cap"
    using Cons.prems(5) in1 by (simp add: offsets_in_buffer_def)
  have old2_lo: "rc = PLCTAG_STATUS_OK \<or> rc = PLCTAG_ERR_TOO_SMALL \<Longrightarrow> ?lo \<le> ?old2"
    using from1 Cons.prems(4) by (auto simp: offsets_from_def)
  have k3: "keeps_offsets ?cap ?sp2 sp3"
    using layer_keeps_functions(4) [OF Cons.prems(6), of ?sp2 w1 rid] l by simp
  have in3: "offsets_in_buffer ?cap sp3"
    using keeps_offsets_in_buffer [OF k3 in2] by (simp add: offsets_in_buffer_def)
  have "offsets_in_buffer ?cap ?sp2 \<and> offsets_from ?lo ?sp2 \<longrightarrow>
      (fst (layer_build_layer (top_layer plc) w1 ?cap ?sp2 rid) = PLCTAG_STATUS_OK \<longrightarrow>
         ?lo \<le> sp_end (fst (snd (snd (layer_build_layer (top_layer plc) w1 ?cap ?sp2 rid)))))
      \<and> (fst (layer_build_layer (top_layer plc) w1 ?cap ?sp2 rid) = PLCTAG_STATUS_PENDING \<longrightarrow>
         offsets_from ?lo (fst (snd (snd (layer_build_layer (top_layer plc) w1 ?cap ?sp2 rid)))))"
    using Cons.prems(7) unfolding layer_stays_from_def by blast
  then have end3: "rc = PLCTAG_STATUS_OK \<or> rc = PLCTAG_ERR_TOO_SMALL \<Longrightarrow>
      rc2 = PLCTAG_STATUS_OK \<Longrightarrow> ?lo \<le> sp_end sp3"
    and from3: "rc = PLCTAG_STATUS_OK \<or> rc = PLCTAG_ERR_TOO_SMALL \<Longrightarrow>
      rc2 = PLCTAG_STATUS_PENDING \<Longrightarrow> offsets_from ?lo sp3"
    using in2 from2 l by simp_all
  have hi3: "sp_end sp3 \<le> ?cap"
    using in3 by (simp add: offsets_in_buffer_def)
  have rec: "\<And>plc' w' pre' rid' first'.
      rc = PLCTAG_STATUS_OK \<or> rc = PLCTAG_ERR_TOO_SMALL \<Longrightarrow>
      rc2 = PLCTAG_STATUS_PENDING \<Longrightarrow>
      payload_start plc' = payload_start plc \<Longrightarrow> payload_end plc' = payload_end plc \<Longrightarrow>
      data_capacity plc' = data_capacity plc \<Longrightarrow> top_layer plc' = top_layer plc \<Longrightarrow>
      payload_in_buffer
        (fst (snd (build_tag_request_loop sys plc' w' pre' rest sp3 ?old2 rid' first')))"
  proof -
    fix plc' :: "('a, 'b) plc" and w' pre' rid' first'
    assume ok: "rc = PLCTAG_STATUS_OK \<or> rc = PLCTAG_ERR_TOO_SMALL"
      and pending: "rc2 = PLCTAG_STATUS_PENDING"
      and same: "payload_start plc' = payload_start plc" "payload_end plc' = payload_end plc"
        "data_capacity plc' = data_capacity plc" "top_layer plc' = top_layer plc"
    show "payload_in_buffer
        (fst (snd (build_tag_request_loop sys plc' w' pre' rest sp3 ?old2 rid' first')))"
    proof (rule Cons.IH)
      show "payload_in_buffer plc'"
        using Cons.prems(1) same by (simp add: payload_in_buffer_def buffer_inv_def)
      show "offsets_in_buffer (data_capacity plc') sp3"
        using in3 same by simp
      show "offsets_from (payload_start plc') sp3"
        using from3 [OF ok pending] same by simp
      show "payload_start plc' \<le> ?old2"
        using old2_lo [OF ok] same by simp
      show "?old2 \<le> data_capacity plc'"
        using old2_hi same by simp
      show "layer_keeps (data_capacity plc') (top_layer plc')"
        using Cons.prems(6) same by simp
      show "layer_stays_from (payload_start plc') (data_capacity plc') (top_layer plc')"
        using Cons.prems(7) same by simp
      show "\<forall>r \<in> set rest. request_keeps (data_capacity plc') r
              \<and> request_stays_from (payload_start plc') (data_capacity plc') r"
        using Cons.prems(8) same by simp
    qed
  qed
  have leaf: "\<And>plc'. payload_start plc' = payload_start plc \<Longrightarrow>
      payload_end plc' = payload_end plc \<Longrightarrow> data_capacity plc' = data_capacity plc \<Longrightarrow>
      payload_in_buffer plc'"
    using Cons.prems(1) by (simp add: payload_in_buffer_def buffer_inv_def)
  have sent: "rc = PLCTAG_STATUS_OK \<or> rc = PLCTAG_ERR_TOO_SMALL \<Longrightarrow>
      ?lo \<le> (if rc2 = PLCTAG_STATUS_OK then sp_end sp3 else ?old2)
      \<and> (if rc2 = PLCTAG_STATUS_OK then sp_end sp3 else ?old2) \<le> ?cap"
    using end3 hi3 old2_lo old2_hi by auto
  show ?case
    apply (simp add: b l Let_def split del: if_split cong: if_cong)
    apply (split if_split, intro conjI impI)
     apply (rule leaf; simp)
    apply (split if_split, intro conjI impI)
     apply (rule leaf; simp)
    apply (split if_split, intro conjI impI)
     apply (rule leaf; simp)
    apply (split if_split, intro conjI impI)
     apply (rule leaf; simp)
    apply (split if_split, intro conjI impI)
     apply (rule rec; simp)
    using sent lo
    apply (simp add: split_beta payload_in_buffer_def buffer_inv_def)
    done
qed

lemma payload_in_buffer_build_tag_request:
  assumes "payload_in_buffer plc" and "callbacks_keep plc" and "build_stays_from_start plc"
  shows "payload_in_buffer (fst (snd (state_build_tag_request sys plc w)))"
  unfolding state_build_tag_request_def
proof (rule build_tag_request_loop_payload_in_buffer)
  show "payload_in_buffer plc" by (rule assms(1))
  show "offsets_in_buffer (data_capacity plc)
      \<lparr>sp_buf = data plc, sp_start = payload_start plc, sp_end = payload_end plc\<rparr>"
    using assms(1) by (simp add: offsets_in_buffer_def payload_in_buffer_def buffer_inv_def)
  show "offsets_from (payload_start plc)
      \<lparr>sp_buf = data plc, sp_start = payload_start plc, sp_end = payload_end plc\<rparr>"
    using assms(1) by (simp add: offsets_from_def payload_in_buffer_def buffer_inv_def)
  show "payload_start plc \<le> payload_end plc" "payload_end plc \<le> data_capacity plc"
    using assms(1) by (simp_all add: payload_in_buffer_def buffer_inv_def)
  show "layer_keeps (data_capacity plc) (top_layer plc)"
    using assms(2) by (simp add: callbacks_keep_def)
  show "layer_stays_from (payload_start plc) (data_capacity plc) (top_layer plc)"
    using assms(3) by (simp add: build_stays_from_start_def)
  show "\<forall>r \<in> set (request_list plc). request_keeps (data_capacity plc) r
          \<and> request_stays_from (payload_start plc) (data_capacity plc) r"
    using assms(2,3) by (simp add: callbacks_keep_def build_stays_from_start_def)
qed

subsection \<open>The events\<close>

lemma payload_in_buffer_call_state_func:
  assumes "payload_in_buffer plc" and "event_allowed plc State_function"
  shows "payload_in_buffer (fst (snd (call_state_func sys plc w)))"
proof -
  have keep: "callbacks_keep plc"
    and build: "state_func plc = S_build_tag_request \<Longrightarrow> build_stays_from_start plc"
    using assms(2) by simp_all
  have layer: "layer_keeps (data_capacity plc) (top_layer plc)"
    using keep by (simp add: callbacks_keep_def)
  show ?thesis
  proof (cases "state_func plc")
    case S_build_tag_request
    then show ?thesis
      using payload_in_buffer_build_tag_request [OF assms(1) keep build]
      by (simp add: call_state_func_def)
  next
    case S_reserve_space_for_tag_request
    then show ?thesis
      using payload_in_buffer_reserve_space [OF assms(1) layer] by (simp add: call_state_func_def)
  next
    case S_build_layer_connect_request
    then show ?thesis
      using payload_in_buffer_connect [OF assms(1) layer] by (simp add: call_state_func_def)
  next
    case S_build_layer_disconnect_request
    then show ?thesis
      using payload_in_buffer_disconnect [OF assms(1) layer] by (simp add: call_state_func_def)
  qed (simp_all add: call_state_func_def payload_in_buffer_plain_states [OF assms(1)])
qed

lemma payload_in_buffer_engine_step:
  assumes "payload_in_buffer plc" and "event_allowed plc ev"
  shows "payload_in_buffer (fst (engine_step sys (plc, w) ev))"
proof (cases ev)
  case State_function
  then show ?thesis
    using payload_in_buffer_call_state_func [OF assms(1), of sys w] assms(2)
    by (simp add: split_beta)
next
  case (Socket_transfer n)
  then show ?thesis
    using assms by (simp add: payload_in_buffer_def buffer_inv_def)
next
  case (Set_buffer_size mem_realloc n)
  then show ?thesis
    using assms(1)
    by (simp add: plc_set_buffer_size_def Let_def payload_in_buffer_def buffer_inv_def)
next
  case (Start_request request client build_request_callback process_response_callback)
  then show ?thesis
    using assms(1) by (simp add: link_request_def payload_in_buffer_def buffer_inv_def)
next
  case (Stop_request request)
  then show ?thesis
    using assms(1) by (simp add: plc_stop_request_def payload_in_buffer_def buffer_inv_def)
next
  case Initialize
  then show ?thesis
    using assms(1)
    by (simp add: reset_plc_def Let_def split_beta payload_in_buffer_def buffer_inv_def)
next
  case (Add_layer layer)
  then show ?thesis
    using assms(1) by (simp add: payload_in_buffer_def buffer_inv_def)
next
  case (Set_idle_timeout timeout_ms)
  then show ?thesis
    using assms(1) by (simp add: payload_in_buffer_def buffer_inv_def)
next
  case Destroy
  then show ?thesis
    using assms(1) by (simp add: payload_in_buffer_def buffer_inv_def)
qed

lemma payload_in_buffer_engine_run:
  assumes "payload_in_buffer (fst start)" and "run_allowed sys start events"
  shows "payload_in_buffer (fst (engine_run sys start events))"
  using assms
proof (induction events arbitrary: start)
  case Nil
  then show ?case by (simp add: engine_run_def)
next
  case (Cons ev events)
  obtain plc w where start: "start = (plc, w)" by (cases start)
  have "payload_in_buffer (fst (engine_step sys start ev))"
    using payload_in_buffer_engine_step [of plc ev sys w] Cons.prems by (simp add: start)
  then have "payload_in_buffer (fst (engine_run sys (engine_step sys start ev) events))"
    using Cons.prems(2) by (intro Cons.IH) simp_all
  then show ?case by (simp add: engine_run_def)
qed

lemma run_allowed_take:
  assumes "run_allowed sys start events"
  shows "run_allowed sys start (take n events)"
  using assms
proof (induction events arbitrary: start n)
  case Nil
  then show ?case by simp
next
  case (Cons ev events)
  then show ?case by (cases n) simp_all
qed

subsection \<open>The runs of the state runner\<close>

text \<open>
  The events cover the functions that call state functions: what \<^verbatim>\<open>plc_state_runner\<close>
  returns is reached by \<open>State_function\<close> events, and what \<^verbatim>\<open>plc_start_request\<close>
  returns by a \<open>Start_request\<close> event and \<open>State_function\<close> events.
\<close>

lemma plc_state_runner_events:
  assumes "plc_state_runner fuel sys plc w = Some (plc', w')"
  shows "\<exists>n. engine_run sys (plc, w) (replicate n State_function) = (plc', w')"
  using assms
proof (induction fuel arbitrary: plc w)
  case 0
  then show ?case by simp
next
  case (Suc fuel)
  obtain rc plc1 w1 where c: "call_state_func sys plc w = (rc, plc1, w1)"
    using prod_cases3 by blast
  show ?case
  proof (cases "rc = PLCTAG_STATUS_PENDING")
    case True
    then have "plc_state_runner fuel sys plc1 w1 = Some (plc', w')"
      using Suc.prems c by simp
    then have "\<exists>n. engine_run sys (plc1, w1) (replicate n State_function) = (plc', w')"
      by (rule Suc.IH)
    then obtain n where "engine_run sys (plc1, w1) (replicate n State_function) = (plc', w')" ..
    then have "engine_run sys (plc, w) (replicate (Suc n) State_function) = (plc', w')"
      using c by (simp add: engine_run_def)
    then show ?thesis by blast
  next
    case False
    then have "(plc1, w1) = (plc', w')"
      using Suc.prems c by simp
    then have "engine_run sys (plc, w) (replicate (Suc 0) State_function) = (plc', w')"
      using c by (simp add: engine_run_def)
    then show ?thesis by blast
  qed
qed

lemma plc_start_request_events:
  assumes "plc_start_request fuel sys plc w request client build_request_callback
             process_response_callback = Some (rc, plc', w')"
  shows "\<exists>n. engine_run sys (plc, w)
           (Start_request request client build_request_callback process_response_callback
              # replicate n State_function) = (plc', w')"
proof (cases "walker_finds request (request_list plc)")
  case True
  then have "(plc', w') = (plc, w)"
    using assms by (simp add: plc_start_request_def)
  then have "engine_run sys (plc, w)
      (Start_request request client build_request_callback process_response_callback
         # replicate 0 State_function) = (plc', w')"
    using True by (simp add: engine_run_def link_request_def)
  then show ?thesis by blast
next
  case False
  let ?plc1 = "link_request plc request client build_request_callback process_response_callback"
  show ?thesis
  proof (cases "state_func plc = S_dispatch_requests")
    case True
    then have "plc_state_runner fuel sys ?plc1 w = Some (plc', w')"
      using assms False
      by (auto simp: plc_start_request_def link_request_def Let_def split: option.splits)
    then have "\<exists>n. engine_run sys (?plc1, w) (replicate n State_function) = (plc', w')"
      by (rule plc_state_runner_events)
    then obtain n where "engine_run sys (?plc1, w) (replicate n State_function) = (plc', w')" ..
    then have "engine_run sys (plc, w)
        (Start_request request client build_request_callback process_response_callback
           # replicate n State_function) = (plc', w')"
      by (simp add: engine_run_def)
    then show ?thesis by blast
  next
    case dispatch: False
    then have "(plc', w') = (?plc1, w)"
      using assms False by (simp add: plc_start_request_def link_request_def Let_def)
    then have "engine_run sys (plc, w)
        (Start_request request client build_request_callback process_response_callback
           # replicate 0 State_function) = (plc', w')"
      by (simp add: engine_run_def)
    then show ?thesis by blast
  qed
qed

subsection \<open>The claim and its amendment\<close>

lemmas payload_fixture_defs =
  framing_plc_def framing_layer_def bounded_request_def created_plc_def first_exchange_def
  fresh_plc_def test_plc_def test_sys_def test_layer_def test_realloc_def

lemmas payload_hypothesis_defs =
  callbacks_keep_def layer_keeps_def request_keeps_def keeps_offsets_def offsets_in_buffer_def
  build_stays_from_start_def layer_stays_from_def request_stays_from_def offsets_from_def
  payload_in_buffer_def buffer_inv_def

lemmas payload_run_defs =
  engine_run_def call_state_func_def state_defs state_build_tag_request_def Let_def
  plc_set_buffer_size_def link_request_def

text \<open>
  Why the offsets are taken one by one: the engine itself hands \<^verbatim>\<open>build_layer\<close> a start
  that is after the end. With a layer that leaves a gap of 2 bytes between two requests,
  the second request of \<open>packing_plc\<close> is handed bytes 16 to 60 and returns too-small;
  the engine rolls the end back to 14, leaves the start at 16 and calls \<^verbatim>\<open>build_layer\<close>.
\<close>

lemma state_build_tag_request_hands_start_after_end:
  "take 4 (snd (snd (state_build_tag_request (test_sys 1000)
       (packing_plc\<lparr>top_layer := packing_layer 2\<rparr>) [])))
     = [Build_request 1 4 64 1, Layer_call ''build_layer'' 4 14,
        Build_request 2 16 60 2, Layer_call ''build_layer'' 16 14]"
  by (simp add: state_build_tag_request_def Let_def packing_plc_def queued_plc_def
      packing_layer_def test_plc_def test_sys_def test_layer_def test_request_def)

text \<open>
  C8, as the claim states it, fails, in two ways.

  The layer and the request of \<open>framing_plc 2\<close> keep every offset they are handed
  within the 64 bytes of the buffer, and I2 holds when the PLC enters
  \<^verbatim>\<open>state_reserve_space_for_tag_request\<close> and when it leaves it for
  \<^verbatim>\<open>state_build_tag_request\<close>, with the payload area from 4 to 64. There the request
  builds bytes 4 to 14, \<^verbatim>\<open>build_layer\<close> returns a frame from 0 to 2, and the state
  function stores the 2 in \<^verbatim>\<open>payload_end\<close> while \<^verbatim>\<open>payload_start\<close>, which it never
  writes, is still 4.

  The hypothesis of the claim says nothing of the socket, which writes \<^verbatim>\<open>payload_end\<close>
  through the pointer it is handed. In the first exchange of \<open>created_plc\<close>, whose
  callbacks keep the offsets and stay at or after the payload start, a socket that reports
  100 bytes read into the buffer of 64 bytes leaves \<^verbatim>\<open>payload_end\<close> beyond the capacity.
\<close>

theorem payload_bounds_counterexample:
  "payload_in_buffer (framing_plc 2)
   \<and> callbacks_keep (framing_plc 2)
   \<and> buffer_inv (fst (engine_run (test_sys 1000) (framing_plc 2, []) [State_function]))
   \<and> callbacks_keep (fst (engine_run (test_sys 1000) (framing_plc 2, []) [State_function]))
   \<and> state_func (fst (engine_run (test_sys 1000) (framing_plc 2, []) [State_function]))
       = S_build_tag_request
   \<and> payload_start (fst (engine_run (test_sys 1000) (framing_plc 2, [])
        [State_function, State_function])) = 4
   \<and> payload_end (fst (engine_run (test_sys 1000) (framing_plc 2, [])
        [State_function, State_function])) = 2
   \<and> \<not> buffer_inv (fst (engine_run (test_sys 1000) (framing_plc 2, [])
        [State_function, State_function]))
   \<and> payload_in_buffer created_plc
   \<and> run_allowed (test_sys 0) (created_plc, []) (take 10 first_exchange)
   \<and> state_func (fst (engine_run (test_sys 0) (created_plc, []) (take 10 first_exchange)))
       = S_tag_response_ready
   \<and> data_capacity (fst (engine_run (test_sys 0) (created_plc, [])
        (take 10 first_exchange @ [Socket_transfer 100]))) = 64
   \<and> payload_end (fst (engine_run (test_sys 0) (created_plc, [])
        (take 10 first_exchange @ [Socket_transfer 100]))) = 100
   \<and> \<not> buffer_inv (fst (engine_run (test_sys 0) (created_plc, [])
        (take 10 first_exchange @ [Socket_transfer 100])))"
  by (simp add: payload_fixture_defs payload_hypothesis_defs payload_run_defs)

text \<open>
  C8, amended. Take a PLC that satisfies I2, \<^verbatim>\<open>payload_start \<le> payload_end \<le> data_capacity\<close>,
  with a \<^verbatim>\<open>payload_start\<close> that is not negative (the PLC as it is created, where the three
  are 0, is one), and any sequence of events: calls of state functions, lengths stored by
  the socket, and calls of the functions of \<^verbatim>\<open>plc.c\<close> that write the PLC
  (\<^verbatim>\<open>plc_set_buffer_size\<close>, \<^verbatim>\<open>plc_start_request\<close>, \<^verbatim>\<open>plc_stop_request\<close>,
  \<^verbatim>\<open>plc_initialize\<close>, \<^verbatim>\<open>plc_add_layer\<close>, \<^verbatim>\<open>plc_set_idle_timeout\<close>,
  \<^verbatim>\<open>plc_rc_destroy\<close>). Then I2 holds after
  every event of the sequence, that is, at every state-function boundary, under the
  hypothesis that
  \<^item> whenever a state function is called, the layer and every queued request keep the
    offsets they are handed within the buffer bounds;
  \<^item> whenever \<^verbatim>\<open>state_build_tag_request\<close> is called, \<^verbatim>\<open>build_layer\<close> and the
    \<^verbatim>\<open>build_request\<close> of every queued request stay at or after \<^verbatim>\<open>payload_start\<close>, which
    that state does not write;
  \<^item> whenever the socket stores a length in \<^verbatim>\<open>payload_end\<close>, the length is at least
    \<^verbatim>\<open>payload_start\<close> and at most \<^verbatim>\<open>data_capacity\<close>.
\<close>

theorem payload_bounds_preserved:
  assumes "payload_in_buffer plc"
    and "run_allowed sys (plc, w) events"
  shows "buffer_inv (fst (engine_run sys (plc, w) (take n events)))
         \<and> 0 \<le> payload_start (fst (engine_run sys (plc, w) (take n events)))"
proof -
  have "run_allowed sys (plc, w) (take n events)"
    using assms(2) by (rule run_allowed_take)
  then have "payload_in_buffer (fst (engine_run sys (plc, w) (take n events)))"
    using assms(1) by (intro payload_in_buffer_engine_run) simp_all
  then show ?thesis
    by (simp add: payload_in_buffer_def)
qed

text \<open>
  The hypotheses hold of the first exchange of \<open>created_plc\<close>. After eight events the
  frame has been built and \<^verbatim>\<open>state_build_tag_request\<close> has left the payload markers at 4
  and 24; after all twelve the response has been handed to the request, the queue is
  empty and the markers are 0 and 14.
\<close>

theorem payload_bounds_preserved_witness:
  "payload_in_buffer created_plc
   \<and> run_allowed (test_sys 0) (created_plc, []) first_exchange
   \<and> buffer_inv (fst (engine_run (test_sys 0) (created_plc, []) (take 8 first_exchange)))
   \<and> state_func (fst (engine_run (test_sys 0) (created_plc, []) (take 8 first_exchange)))
       = S_tag_request_sent
   \<and> payload_start (fst (engine_run (test_sys 0) (created_plc, []) (take 8 first_exchange))) = 4
   \<and> payload_end (fst (engine_run (test_sys 0) (created_plc, []) (take 8 first_exchange))) = 24
   \<and> buffer_inv (fst (engine_run (test_sys 0) (created_plc, []) (take 12 first_exchange)))
   \<and> request_list (fst (engine_run (test_sys 0) (created_plc, []) (take 12 first_exchange))) = []
   \<and> payload_start (fst (engine_run (test_sys 0) (created_plc, []) (take 12 first_exchange))) = 0
   \<and> payload_end (fst (engine_run (test_sys 0) (created_plc, []) (take 12 first_exchange))) = 14"
proof -
  have start: "payload_in_buffer created_plc"
    by (simp add: payload_fixture_defs payload_hypothesis_defs)
  have run: "run_allowed (test_sys 0) (created_plc, []) first_exchange"
    by (simp add: payload_fixture_defs payload_hypothesis_defs payload_run_defs)
  have built:
    "state_func (fst (engine_run (test_sys 0) (created_plc, []) (take 8 first_exchange)))
       = S_tag_request_sent"
    "payload_start (fst (engine_run (test_sys 0) (created_plc, []) (take 8 first_exchange))) = 4"
    "payload_end (fst (engine_run (test_sys 0) (created_plc, []) (take 8 first_exchange))) = 24"
    by (simp_all add: payload_fixture_defs payload_run_defs)
  have answered:
    "request_list (fst (engine_run (test_sys 0) (created_plc, []) (take 12 first_exchange))) = []"
    "payload_start (fst (engine_run (test_sys 0) (created_plc, []) (take 12 first_exchange))) = 0"
    "payload_end (fst (engine_run (test_sys 0) (created_plc, []) (take 12 first_exchange))) = 14"
    by (simp_all add: payload_fixture_defs payload_run_defs)
  show ?thesis
    using payload_bounds_preserved [OF start run, of 8]
      payload_bounds_preserved [OF start run, of 12] start run built answered
    by simp
qed

section \<open>The buffer size (C9, C10)\<close>

lemma plc_set_buffer_size_capacity_mono:
  "plc_set_buffer_size mem_realloc (Some plc) n = (rc, Some plc') \<Longrightarrow>
   data_capacity plc \<le> data_capacity plc'"
  by (auto simp: plc_set_buffer_size_def Let_def split: if_splits)

lemma plc_set_buffer_size_Some:
  "\<exists>rc plc'. plc_set_buffer_size mem_realloc (Some plc) n = (rc, Some plc')"
  by (simp add: plc_set_buffer_size_def Let_def)

lemma set_buffer_sizes_capacity_mono:
  "data_capacity plc \<le> data_capacity (set_buffer_sizes plc calls)"
proof (induction calls arbitrary: plc)
  case Nil
  show ?case by simp
next
  case (Cons c calls)
  obtain mem_realloc n where c: "c = (mem_realloc, n)" by (cases c)
  obtain rc plc1 where step: "plc_set_buffer_size mem_realloc (Some plc) n = (rc, Some plc1)"
    using plc_set_buffer_size_Some by blast
  have "data_capacity plc \<le> data_capacity plc1"
    using step by (rule plc_set_buffer_size_capacity_mono)
  also have "\<dots> \<le> data_capacity (set_buffer_sizes plc1 calls)"
    by (rule Cons.IH)
  finally show ?case
    using step by (simp add: c)
qed

text \<open>
  C9, as the claim states it, fails: with a request above the capacity and an allocator
  that is out of memory, \<^verbatim>\<open>plc_set_buffer_size\<close> returns \<^verbatim>\<open>PLCTAG_ERR_NO_MEM\<close> and the
  capacity is still 64, not the requested 100.
\<close>

theorem plc_set_buffer_size_no_mem_counterexample:
  "data_capacity registered_plc < 100
   \<and> fst (plc_set_buffer_size failing_realloc
            (Some registered_plc) 100)
       = PLCTAG_ERR_NO_MEM
   \<and> map_option data_capacity
       (snd (plc_set_buffer_size failing_realloc
              (Some registered_plc) 100))
       = Some 64"
  by (simp add: plc_set_buffer_size_def registered_plc_def test_plc_def failing_realloc_def)

text \<open>
  C9, amended: \<^verbatim>\<open>plc_set_buffer_size\<close> returns the too-small error and changes nothing when
  the requested size is not positive; when the requested size is positive and at most the
  current capacity it returns ok and changes nothing (neither the capacity nor the
  contents); when the requested size exceeds the capacity and the reallocation succeeds it
  returns ok, the capacity is exactly the requested size and the buffer is the one the
  allocator returned; when the reallocation fails it returns the no-memory error and the
  capacity is unchanged; across any sequence of calls, whatever the allocator does, the
  capacity never decreases.
\<close>

theorem plc_set_buffer_size_amended:
  "(n \<le> 0 \<longrightarrow> plc_set_buffer_size mem_realloc (Some plc) n = (PLCTAG_ERR_TOO_SMALL, Some plc))
   \<and> (0 < n \<and> n \<le> data_capacity plc \<longrightarrow>
        plc_set_buffer_size mem_realloc (Some plc) n = (PLCTAG_STATUS_OK, Some plc))
   \<and> (0 < n \<and> data_capacity plc < n \<and> mem_realloc (data plc) n \<noteq> None \<longrightarrow>
        plc_set_buffer_size mem_realloc (Some plc) n
          = (PLCTAG_STATUS_OK, Some (plc\<lparr>data := mem_realloc (data plc) n, data_capacity := n\<rparr>)))
   \<and> (0 < n \<and> data_capacity plc < n \<and> mem_realloc (data plc) n = None \<longrightarrow>
        fst (plc_set_buffer_size mem_realloc (Some plc) n) = PLCTAG_ERR_NO_MEM
        \<and> map_option data_capacity (snd (plc_set_buffer_size mem_realloc (Some plc) n))
            = Some (data_capacity plc))
   \<and> data_capacity plc \<le> data_capacity (set_buffer_sizes plc calls)"
  by (simp add: plc_set_buffer_size_def Let_def set_buffer_sizes_capacity_mono)

theorem plc_set_buffer_size_amended_witness:
  "plc_set_buffer_size test_realloc (Some fresh_plc) (- 1) = (PLCTAG_ERR_TOO_SMALL, Some fresh_plc)
   \<and> plc_set_buffer_size test_realloc
        (Some registered_plc) 10
       = (PLCTAG_STATUS_OK, Some registered_plc)
   \<and> plc_set_buffer_size test_realloc (Some fresh_plc) 4
       = (PLCTAG_STATUS_OK, Some (fresh_plc\<lparr>data := Some [0, 0, 0, 0], data_capacity := 4\<rparr>))
   \<and> fst (plc_set_buffer_size failing_realloc (Some fresh_plc) 4) = PLCTAG_ERR_NO_MEM
   \<and> map_option data_capacity (snd (plc_set_buffer_size failing_realloc (Some fresh_plc) 4))
       = Some 0
   \<and> data_capacity fresh_plc
       \<le> data_capacity
            (set_buffer_sizes fresh_plc [(test_realloc, 4), (failing_realloc, 9), (test_realloc, 2)])"
proof -
  let ?p = "registered_plc"
  have cap: "data_capacity fresh_plc = 0" "data fresh_plc = None" "data_capacity ?p = 64"
    by (simp_all add: fresh_plc_def registered_plc_def test_plc_def)
  have grow: "test_realloc None 4 = Some [0, 0, 0, 0]"
    by (simp add: test_realloc_def numeral_eq_Suc)
  note a = plc_set_buffer_size_amended [of "- 1" test_realloc fresh_plc "[]"]
  note b = plc_set_buffer_size_amended [of 10 test_realloc ?p "[]"]
  note c = plc_set_buffer_size_amended [of 4 test_realloc fresh_plc "[]"]
  note d = plc_set_buffer_size_amended
             [of 4 failing_realloc fresh_plc "[(test_realloc, 4), (failing_realloc, 9), (test_realloc, 2)]"]
  show ?thesis
    using a b c d by (simp add: cap grow failing_realloc_def)
qed

text \<open>
  C10: \<^verbatim>\<open>plc_get_buffer_size\<close> returns the \<^verbatim>\<open>payload_end\<close> marker of the PLC, not the
  capacity. So after a \<^verbatim>\<open>plc_set_buffer_size\<close> that returned ok and grew the buffer to
  \<open>n\<close>, with nothing done to the PLC in between, \<^verbatim>\<open>plc_get_buffer_size\<close> returns the
  \<^verbatim>\<open>payload_end\<close> of before the call while the capacity is \<open>n\<close>; that value is not
  \<open>n\<close> whenever the marker was within the old capacity, as it is (0) on a fresh PLC.
\<close>

theorem plc_get_buffer_size_is_payload_end:
  assumes "plc_set_buffer_size mem_realloc (Some plc) n = (PLCTAG_STATUS_OK, Some plc')"
    and "data_capacity plc < n"
  shows "plc_get_buffer_size (Some plc) = Inr (payload_end plc)
         \<and> data_capacity plc' = n
         \<and> plc_get_buffer_size (Some plc') = Inr (payload_end plc)
         \<and> (payload_end plc \<le> data_capacity plc \<longrightarrow> plc_get_buffer_size (Some plc') \<noteq> Inr n)"
  using assms
  by (auto simp: plc_set_buffer_size_def plc_get_buffer_size_def Let_def split: if_splits)

theorem plc_get_buffer_size_is_payload_end_witness:
  "plc_set_buffer_size test_realloc (Some fresh_plc) 4
     = (PLCTAG_STATUS_OK, Some (fresh_plc\<lparr>data := Some [0, 0, 0, 0], data_capacity := 4\<rparr>))
   \<and> data_capacity fresh_plc < 4
   \<and> payload_end fresh_plc \<le> data_capacity fresh_plc
   \<and> plc_get_buffer_size (Some fresh_plc) = Inr 0
   \<and> data_capacity (fresh_plc\<lparr>data := Some [0, 0, 0, 0], data_capacity := 4\<rparr>) = 4
   \<and> plc_get_buffer_size (Some (fresh_plc\<lparr>data := Some [0, 0, 0, 0], data_capacity := 4\<rparr>)) = Inr 0
   \<and> plc_get_buffer_size (Some (fresh_plc\<lparr>data := Some [0, 0, 0, 0], data_capacity := 4\<rparr>)) \<noteq> Inr 4"
proof -
  have set: "plc_set_buffer_size test_realloc (Some fresh_plc) 4
     = (PLCTAG_STATUS_OK, Some (fresh_plc\<lparr>data := Some [0, 0, 0, 0], data_capacity := 4\<rparr>))"
    by (simp add: plc_set_buffer_size_def fresh_plc_def test_plc_def test_realloc_def numeral_eq_Suc)
  have cap: "data_capacity fresh_plc < 4" and pay: "payload_end fresh_plc \<le> data_capacity fresh_plc"
    and zero: "payload_end fresh_plc = 0"
    by (simp_all add: fresh_plc_def test_plc_def)
  show ?thesis
    using plc_get_buffer_size_is_payload_end [OF set cap] set cap pay zero by simp
qed

end
